theory Spec2Isabelle
  imports Main "HOL-Library.Sublist"
begin

section \<open>Values of the request language\<close>

text \<open>
  The services receive JSON request bodies. A validation-rule set is a JavaScript object:
  its keys are kept in insertion order, which is the order \<open>JSON.stringify\<close> writes
  them in (the rule names \<open>regex\<close>, \<open>min\<close>, \<open>max\<close>, \<open>enum\<close>, \<open>custom\<close>
  are not array indices, which the language would move to the front). Rule values are
  numbers, strings, booleans, null or arrays of those (the declared type
  \<open>PropertyValidationRules\<close> has no nested object). Numbers are taken to be integers.
\<close>

datatype jsval = JNull | JBool bool | JNum int | JStr string | JArr "jsval list"

type_synonym PropertyValidationRules = "(string \<times> jsval) list"

text \<open>JavaScript truthiness, as used by \<open>a && b\<close>, \<open>a || b\<close> and \<open>if (a)\<close>.\<close>

fun truthy :: "jsval \<Rightarrow> bool" where
  "truthy JNull = False"
| "truthy (JBool b) = b"
| "truthy (JNum n) = (n \<noteq> 0)"
| "truthy (JStr s) = (s \<noteq> [])"
| "truthy (JArr vs) = True"

text \<open>The \<open>typeof\<close> operator.\<close>

fun typeof :: "jsval \<Rightarrow> string" where
  "typeof JNull = ''object''"
| "typeof (JBool b) = ''boolean''"
| "typeof (JNum n) = ''number''"
| "typeof (JStr s) = ''string''"
| "typeof (JArr vs) = ''object''"

fun isArray :: "jsval \<Rightarrow> bool" where
  "isArray (JArr vs) = True"
| "isArray v = False"

text \<open>Property access \<open>rules.k\<close>: \<open>None\<close> stands for \<open>undefined\<close>.\<close>

definition field :: "PropertyValidationRules \<Rightarrow> string \<Rightarrow> jsval option" where
  "field rules k = map_of rules k"

text \<open>A field is present and truthy: the guard \<open>rules.k && ...\<close> of the source.\<close>

definition field_truthy :: "PropertyValidationRules \<Rightarrow> string \<Rightarrow> bool" where
  "field_truthy rules k = (case field rules k of None \<Rightarrow> False | Some v \<Rightarrow> truthy v)"

subsection \<open>JSON.stringify\<close>

definition dq :: string where
  "dq = [CHR 0x22]"

definition sq :: string where
  "sq = [CHR 0x27]"

definition digit_char :: "nat \<Rightarrow> char" where
  "digit_char d = char_of (48 + d)"

fun show_nat :: "nat \<Rightarrow> string" where
  "show_nat n = (if n < 10 then [digit_char n] else show_nat (n div 10) @ [digit_char (n mod 10)])"

declare show_nat.simps [simp del]

definition show_int :: "int \<Rightarrow> string" where
  "show_int i = (if i < 0 then CHR ''-'' # show_nat (nat (- i)) else show_nat (nat i))"

definition hex_char :: "nat \<Rightarrow> char" where
  "hex_char d = (if d < 10 then char_of (48 + d) else char_of (87 + d))"

text \<open>Quoting of one character inside a JSON string (QuoteJSONString of ECMAScript).\<close>

definition quote_char :: "char \<Rightarrow> string" where
  "quote_char c =
     (if c = CHR 0x22 then [CHR 0x5C, CHR 0x22]
      else if c = CHR 0x5C then [CHR 0x5C, CHR 0x5C]
      else if c = CHR 0x08 then [CHR 0x5C, CHR ''b'']
      else if c = CHR 0x0C then [CHR 0x5C, CHR ''f'']
      else if c = CHR 0x0A then [CHR 0x5C, CHR ''n'']
      else if c = CHR 0x0D then [CHR 0x5C, CHR ''r'']
      else if c = CHR 0x09 then [CHR 0x5C, CHR ''t'']
      else if of_char c < (32::nat)
        then [CHR 0x5C, CHR ''u'', CHR ''0'', CHR ''0'',
              hex_char (of_char c div 16), hex_char (of_char c mod 16)]
      else [c])"

definition quote_string :: "string \<Rightarrow> string" where
  "quote_string s = dq @ concat (map quote_char s) @ dq"

fun join_comma :: "string list \<Rightarrow> string" where
  "join_comma [] = []"
| "join_comma [x] = x"
| "join_comma (x # y # ys) = x @ '','' @ join_comma (y # ys)"

fun stringify_val :: "jsval \<Rightarrow> string" where
  "stringify_val JNull = ''null''"
| "stringify_val (JBool b) = (if b then ''true'' else ''false'')"
| "stringify_val (JNum n) = show_int n"
| "stringify_val (JStr s) = quote_string s"
| "stringify_val (JArr vs) = ''['' @ join_comma (map stringify_val vs) @ '']''"

definition stringify_member :: "string \<times> jsval \<Rightarrow> string" where
  "stringify_member kv = quote_string (fst kv) @ '':'' @ stringify_val (snd kv)"

text \<open>
  \<open>JSON.stringify\<close> applied to \<open>rules || null\<close>: \<open>None\<close> is \<open>null\<close>, an object
  is written member by member in key order.
\<close>

fun JSON_stringify :: "PropertyValidationRules option \<Rightarrow> string" where
  "JSON_stringify None = ''null''"
| "JSON_stringify (Some rules) = ''{'' @ join_comma (map stringify_member rules) @ ''}''"

section \<open>Errors\<close>

text \<open>
  The error classes of \<open>utils/errors\<close> that the services throw, and the two kinds of
  failure of the store: a failed query (\<open>QueryFailedError\<close> of the ORM, for instance a
  unique-index violation) and a failure of the connection itself.
\<close>

datatype error =
    AppError string nat
  | ValidationError string
  | NotFoundError string
  | ConflictError string
  | UniqueConstraintError string string
  | QueryFailedError string
  | TransactionNotStartedError
  | TypeError string
  | DriverError string

fun error_message :: "error \<Rightarrow> string" where
  "error_message (AppError m c) = m"
| "error_message (ValidationError m) = m"
| "error_message (NotFoundError resource) = resource @ '' not found''"
| "error_message (ConflictError m) = m"
| "error_message (UniqueConstraintError f v) = f @ '' '' @ sq @ v @ sq @ '' already exists''"
| "error_message (QueryFailedError m) = m"
| "error_message TransactionNotStartedError =
     ''Transaction is not started yet, start transaction before committing or rolling it back''"
| "error_message (TypeError m) = m"
| "error_message (DriverError m) = m"

text \<open>\<open>statusCode\<close> of an \<open>AppError\<close>; \<open>None\<close> for an error that is not an \<open>AppError\<close>.\<close>

fun statusCode :: "error \<Rightarrow> nat option" where
  "statusCode (AppError m c) = Some c"
| "statusCode (ValidationError m) = Some 400"
| "statusCode (NotFoundError r) = Some 404"
| "statusCode (ConflictError m) = Some 409"
| "statusCode (UniqueConstraintError f v) = Some 409"
| "statusCode e = None"

text \<open>\<open>error.constructor.name\<close> and \<open>error.name\<close>.\<close>

fun constructor_name :: "error \<Rightarrow> string" where
  "constructor_name (AppError m c) = ''AppError''"
| "constructor_name (ValidationError m) = ''ValidationError''"
| "constructor_name (NotFoundError r) = ''NotFoundError''"
| "constructor_name (ConflictError m) = ''ConflictError''"
| "constructor_name (UniqueConstraintError f v) = ''UniqueConstraintError''"
| "constructor_name (QueryFailedError m) = ''QueryFailedError''"
| "constructor_name TransactionNotStartedError = ''TransactionNotStartedError''"
| "constructor_name (TypeError m) = ''TypeError''"
| "constructor_name (DriverError m) = ''Error''"

fun error_name :: "error \<Rightarrow> string" where
  "error_name (QueryFailedError m) = ''QueryFailedError''"
| "error_name TransactionNotStartedError = ''TransactionNotStartedError''"
| "error_name (TypeError m) = ''TypeError''"
| "error_name e = ''Error''"

text \<open>\<open>error instanceof ConflictError\<close>: \<open>UniqueConstraintError\<close> extends \<open>ConflictError\<close>.\<close>

fun is_conflict :: "error \<Rightarrow> bool" where
  "is_conflict (ConflictError m) = True"
| "is_conflict (UniqueConstraintError f v) = True"
| "is_conflict e = False"

definition duplicate_key :: error where
  "duplicate_key = QueryFailedError ''duplicate key value violates unique constraint''"

definition connection_lost :: error where
  "connection_lost = DriverError ''Connection terminated unexpectedly''"

section \<open>Entities and the store\<close>

datatype EventType = TRACK | IDENTIFY | ALIAS | SCREEN | PAGE

fun EventType_value :: "EventType \<Rightarrow> string" where
  "EventType_value TRACK = ''track''"
| "EventType_value IDENTIFY = ''identify''"
| "EventType_value ALIAS = ''alias''"
| "EventType_value SCREEN = ''screen''"
| "EventType_value PAGE = ''page''"

datatype PropertyType = STRING | NUMBER | BOOLEAN

fun PropertyType_value :: "PropertyType \<Rightarrow> string" where
  "PropertyType_value STRING = ''string''"
| "PropertyType_value NUMBER = ''number''"
| "PropertyType_value BOOLEAN = ''boolean''"

text \<open>
  Rows of the five tables. Primary keys are generated by the store (UUIDs in the
  source, fresh natural numbers here); timestamps are natural numbers; a nullable
  column is an option. Each field carries a prefix naming its entity, since the
  entities share column names.
\<close>

record TrackingPlan =
  tp_id :: nat
  tp_name :: string
  tp_description :: string
  tp_create_time :: nat
  tp_update_time :: nat
  tp_is_deleted :: bool
  tp_deleted_at :: "nat option"

record Event =
  ev_id :: nat
  ev_name :: string
  ev_type :: EventType
  ev_description :: string
  ev_create_time :: nat
  ev_update_time :: nat
  ev_is_deleted :: bool
  ev_deleted_at :: "nat option"

record Property =
  pr_id :: nat
  pr_name :: string
  pr_type :: PropertyType
  pr_description :: string
  pr_validation_rules :: "PropertyValidationRules option"
  pr_create_time :: nat
  pr_update_time :: nat
  pr_is_deleted :: bool
  pr_deleted_at :: "nat option"

record TrackingPlanEvent =
  tpe_id :: nat
  tpe_tracking_plan_id :: nat
  tpe_event_id :: nat
  tpe_additional_properties :: bool
  tpe_created_at :: nat
  tpe_is_deleted :: bool
  tpe_deleted_at :: "nat option"

record EventProperty =
  ep_id :: nat
  ep_tracking_plan_event_id :: nat
  ep_property_id :: nat
  ep_required :: bool
  ep_created_at :: nat
  ep_is_deleted :: bool
  ep_deleted_at :: "nat option"

text \<open>
  The store: the five tables in insertion order, the next fresh key, and two facts
  about its connections during the call at hand. \<open>available\<close> says whether the
  database answers at all: when it does not, every repository call and
  \<open>queryRunner.connect()\<close> fail with a driver error. \<open>runner_statements\<close> is the
  fate of the one connection that a query runner holds for its transaction: \<open>None\<close>
  when it stays up, \<open>Some k\<close> when it carries \<open>k\<close> more statements of the
  transaction and is lost after them.

  The store of these definitions enforces the unique indexes of the entities and the
  \<open>jsonb\<close> form of rule sets. It does not enforce the length limit of the name
  columns, and it lists rows in insertion order where the database fixes no order.
\<close>

record Database =
  plans :: "TrackingPlan list"
  events :: "Event list"
  properties :: "Property list"
  tracking_plan_events :: "TrackingPlanEvent list"
  event_properties :: "EventProperty list"
  next_id :: nat
  available :: bool
  runner_statements :: "nat option"

section \<open>Request and response types\<close>

record CreateEventDto =
  ce_name :: string
  ce_type :: EventType
  ce_description :: string
  ce_create_time :: "nat option"

record UpdateEventDto =
  ue_name :: "string option"
  ue_type :: "EventType option"
  ue_description :: "string option"

record CreatePropertyDto =
  cp_name :: string
  cp_type :: PropertyType
  cp_description :: string
  cp_validation_rules :: "PropertyValidationRules option"
  cp_create_time :: "nat option"

record UpdatePropertyDto =
  up_name :: "string option"
  up_type :: "PropertyType option"
  up_description :: "string option"
  up_validation_rules :: "PropertyValidationRules option"

record EventPropertyDto =
  epd_name :: string
  epd_type :: PropertyType
  epd_required :: bool
  epd_description :: string
  epd_validation_rules :: "PropertyValidationRules option"

record TrackingPlanEventDto =
  tped_name :: string
  tped_type :: EventType
  tped_description :: string
  tped_properties :: "EventPropertyDto list"
  tped_additionalProperties :: bool

record CreateTrackingPlanDto =
  ctp_name :: string
  ctp_description :: string
  ctp_events :: "TrackingPlanEventDto list"
  ctp_create_time :: "nat option"

record UpdateTrackingPlanDto =
  utp_name :: "string option"
  utp_description :: "string option"
  utp_events :: "TrackingPlanEventDto list option"

text \<open>The nested entries of \<open>TrackingPlanResponseDto\<close>.\<close>

record PropertyEntry =
  pe_id :: nat
  pe_name :: string
  pe_type :: PropertyType
  pe_description :: string
  pe_required :: bool
  pe_validation_rules :: "PropertyValidationRules option"

record EventEntry =
  ee_id :: nat
  ee_name :: string
  ee_type :: EventType
  ee_description :: string
  ee_additionalProperties :: bool
  ee_properties :: "PropertyEntry list"

record TrackingPlanResponseDto =
  res_id :: nat
  res_name :: string
  res_description :: string
  res_create_time :: nat
  res_update_time :: nat
  res_is_deleted :: bool
  res_deleted_at :: "nat option"
  res_events :: "EventEntry list"

text \<open>
  \<open>ServiceResponse<T>\<close>: either \<open>{ success: true, data }\<close> or
  \<open>{ success: false, error: { code, message } }\<close>.
\<close>

datatype 'a ServiceResponse = Success 'a | Failure string string

fun success :: "'a ServiceResponse \<Rightarrow> bool" where
  "success (Success d) = True"
| "success (Failure c m) = False"

text \<open>
  What a call of an \<open>async\<close> service method gives its caller: a resolved promise
  (\<open>Returns\<close>) or a rejected one (\<open>Throws\<close>).
\<close>

datatype 'a outcome = Returns 'a | Throws error

fun propagates :: "'a outcome \<Rightarrow> bool" where
  "propagates (Returns r) = False"
| "propagates (Throws e) = True"

text \<open>
  The \<open>catch\<close> block shared by all service methods: the error is turned into a
  failure result with the method's code and the error's message.
\<close>

definition catch_as :: "string \<Rightarrow> error + 'a \<Rightarrow> 'a ServiceResponse" where
  "catch_as c r = (case r of Inl e \<Rightarrow> Failure c (error_message e) | Inr d \<Rightarrow> Success d)"

section \<open>Repositories\<close>

text \<open>
  Every repository method is a query against the store: it fails with a driver error
  when the store is not available. \<open>findOne\<close> returns the first matching row. All
  lookups of the source filter on \<open>is_deleted: false\<close>.
\<close>

definition run_query :: "Database \<Rightarrow> 'a \<Rightarrow> error + 'a" where
  "run_query db r = (if available db then Inr r else Inl connection_lost)"

subsection \<open>EventRepository\<close>

definition findByNameAndType_Event :: "Database \<Rightarrow> string \<Rightarrow> EventType \<Rightarrow> error + Event option" where
  "findByNameAndType_Event db n t =
     run_query db (find (\<lambda>e. ev_name e = n \<and> ev_type e = t \<and> \<not> ev_is_deleted e) (events db))"

definition findById_Event :: "Database \<Rightarrow> nat \<Rightarrow> error + Event option" where
  "findById_Event db i =
     run_query db (find (\<lambda>e. ev_id e = i \<and> \<not> ev_is_deleted e) (events db))"

definition findByNameAndTypeExcludingId_Event ::
    "Database \<Rightarrow> string \<Rightarrow> EventType \<Rightarrow> nat \<Rightarrow> error + Event option" where
  "findByNameAndTypeExcludingId_Event db n t excludeId =
     run_query db (find (\<lambda>e. ev_name e = n \<and> ev_type e = t \<and> \<not> ev_is_deleted e \<and> ev_id e \<noteq> excludeId)
       (events db))"

text \<open>
  \<open>BaseRepository.create\<close> on the events table: \<open>repository.create\<close> followed by
  \<open>repository.save\<close>, an INSERT. The store generates the key, sets \<open>update_time\<close>
  and the column defaults, and enforces the entity's unique index on
  \<open>(name, type)\<close>, which has no condition on \<open>is_deleted\<close> and so covers
  soft-deleted rows as well.
\<close>

definition create_Event ::
    "nat \<Rightarrow> string \<Rightarrow> EventType \<Rightarrow> string \<Rightarrow> nat \<Rightarrow> Database \<Rightarrow> (error + Event) \<times> Database" where
  "create_Event now n t d ct db =
     (if \<not> available db then (Inl connection_lost, db)
      else if list_ex (\<lambda>e. ev_name e = n \<and> ev_type e = t) (events db) then (Inl duplicate_key, db)
      else
        let e = \<lparr> ev_id = next_id db, ev_name = n, ev_type = t, ev_description = d,
                  ev_create_time = ct, ev_update_time = now, ev_is_deleted = False,
                  ev_deleted_at = None \<rparr>
        in (Inr e, db\<lparr> events := events db @ [e], next_id := Suc (next_id db) \<rparr>))"

text \<open>
  \<open>BaseRepository.softDelete\<close>: \<open>repository.update(id, { is_deleted: true,
  deleted_at: new Date() })\<close>, an UPDATE of the row with that key whatever its
  \<open>is_deleted\<close> flag; the ORM also refreshes the \<open>@UpdateDateColumn\<close>. The result is
  \<open>affected === 1\<close>.
\<close>

definition softDelete_Event :: "nat \<Rightarrow> nat \<Rightarrow> Database \<Rightarrow> (error + bool) \<times> Database" where
  "softDelete_Event now i db =
     (if \<not> available db then (Inl connection_lost, db)
      else (Inr (length (filter (\<lambda>e. ev_id e = i) (events db)) = 1),
            db\<lparr> events := map (\<lambda>e. if ev_id e = i
                    then e\<lparr> ev_is_deleted := True, ev_deleted_at := Some now, ev_update_time := now \<rparr>
                    else e) (events db) \<rparr>))"

text \<open>
  \<open>BaseRepository.update(id, data)\<close>: an UPDATE of the supplied columns (an absent
  field is left as it is), then \<open>findById\<close>. The UPDATE is refused by the unique index
  when another row already has the new \<open>(name, type)\<close>.
\<close>

definition apply_UpdateEventDto :: "nat \<Rightarrow> UpdateEventDto \<Rightarrow> Event \<Rightarrow> Event" where
  "apply_UpdateEventDto now data e =
     e\<lparr> ev_name := (case ue_name data of None \<Rightarrow> ev_name e | Some n \<Rightarrow> n),
        ev_type := (case ue_type data of None \<Rightarrow> ev_type e | Some t \<Rightarrow> t),
        ev_description := (case ue_description data of None \<Rightarrow> ev_description e | Some d \<Rightarrow> d),
        ev_update_time := now \<rparr>"

definition update_Event :: "nat \<Rightarrow> nat \<Rightarrow> UpdateEventDto \<Rightarrow> Database \<Rightarrow> (error + Event option) \<times> Database" where
  "update_Event now i data db =
     (if \<not> available db then (Inl connection_lost, db)
      else case find (\<lambda>e. ev_id e = i) (events db) of
        None \<Rightarrow> (findById_Event db i, db)
      | Some old \<Rightarrow>
          let new = apply_UpdateEventDto now data old in
          if list_ex (\<lambda>e. ev_id e \<noteq> i \<and> ev_name e = ev_name new \<and> ev_type e = ev_type new) (events db)
          then (Inl duplicate_key, db)
          else
            let db' = db\<lparr> events := map (\<lambda>e. if ev_id e = i then apply_UpdateEventDto now data e else e)
                                      (events db) \<rparr>
            in (findById_Event db' i, db'))"

subsection \<open>PropertyRepository\<close>

definition findByNameAndType_Property ::
    "Database \<Rightarrow> string \<Rightarrow> PropertyType \<Rightarrow> error + Property option" where
  "findByNameAndType_Property db n t =
     run_query db (find (\<lambda>p. pr_name p = n \<and> pr_type p = t \<and> \<not> pr_is_deleted p) (properties db))"

definition findById_Property :: "Database \<Rightarrow> nat \<Rightarrow> error + Property option" where
  "findById_Property db i =
     run_query db (find (\<lambda>p. pr_id p = i \<and> \<not> pr_is_deleted p) (properties db))"

definition findByNameAndTypeExcludingId_Property ::
    "Database \<Rightarrow> string \<Rightarrow> PropertyType \<Rightarrow> nat \<Rightarrow> error + Property option" where
  "findByNameAndTypeExcludingId_Property db n t excludeId =
     run_query db (find (\<lambda>p. pr_name p = n \<and> pr_type p = t \<and> \<not> pr_is_deleted p \<and> pr_id p \<noteq> excludeId)
       (properties db))"

text \<open>
  The column \<open>validation_rules\<close> has type \<open>jsonb\<close>. The database does not keep
  the key order of an object written to such a column: it keeps the keys sorted, a
  shorter key before a longer one and keys of equal length by their bytes, and of a
  repeated key the last value. Every later read of the row returns the rule set in
  that order.
\<close>

fun bytes_less :: "string \<Rightarrow> string \<Rightarrow> bool" where
  "bytes_less [] [] = False"
| "bytes_less [] (y # ys) = True"
| "bytes_less (x # xs) [] = False"
| "bytes_less (x # xs) (y # ys) = (of_char x < (of_char y :: nat) \<or> (x = y \<and> bytes_less xs ys))"

definition jsonb_key_less :: "string \<Rightarrow> string \<Rightarrow> bool" where
  "jsonb_key_less a b = (length a < length b \<or> (length a = length b \<and> bytes_less a b))"

fun jsonb_insert :: "string \<times> jsval \<Rightarrow> PropertyValidationRules \<Rightarrow> PropertyValidationRules" where
  "jsonb_insert kv [] = [kv]"
| "jsonb_insert kv (x # xs) =
     (if fst kv = fst x then kv # xs
      else if jsonb_key_less (fst kv) (fst x) then kv # x # xs
      else x # jsonb_insert kv xs)"

definition jsonb_object :: "PropertyValidationRules \<Rightarrow> PropertyValidationRules" where
  "jsonb_object rules = foldl (\<lambda>acc kv. jsonb_insert kv acc) [] rules"

definition jsonb_column :: "PropertyValidationRules option \<Rightarrow> PropertyValidationRules option" where
  "jsonb_column rules = (case rules of None \<Rightarrow> None | Some r \<Rightarrow> Some (jsonb_object r))"

text \<open>
  \<open>BaseRepository.create\<close> on the properties table. \<open>save\<close> returns the entity it
  was given, with the generated columns filled in: its rule set is still the object of
  the request. The row in the table carries the rule set as the column keeps it.
\<close>

definition create_Property ::
    "nat \<Rightarrow> string \<Rightarrow> PropertyType \<Rightarrow> string \<Rightarrow> PropertyValidationRules option \<Rightarrow> nat \<Rightarrow> Database
      \<Rightarrow> (error + Property) \<times> Database" where
  "create_Property now n t d rules ct db =
     (if \<not> available db then (Inl connection_lost, db)
      else if list_ex (\<lambda>p. pr_name p = n \<and> pr_type p = t) (properties db) then (Inl duplicate_key, db)
      else
        let p = \<lparr> pr_id = next_id db, pr_name = n, pr_type = t, pr_description = d,
                  pr_validation_rules = rules, pr_create_time = ct, pr_update_time = now,
                  pr_is_deleted = False, pr_deleted_at = None \<rparr>
        in (Inr p, db\<lparr> properties := properties db @ [p\<lparr> pr_validation_rules := jsonb_column rules \<rparr>],
                        next_id := Suc (next_id db) \<rparr>))"

definition softDelete_Property :: "nat \<Rightarrow> nat \<Rightarrow> Database \<Rightarrow> (error + bool) \<times> Database" where
  "softDelete_Property now i db =
     (if \<not> available db then (Inl connection_lost, db)
      else (Inr (length (filter (\<lambda>p. pr_id p = i) (properties db)) = 1),
            db\<lparr> properties := map (\<lambda>p. if pr_id p = i
                    then p\<lparr> pr_is_deleted := True, pr_deleted_at := Some now, pr_update_time := now \<rparr>
                    else p) (properties db) \<rparr>))"

definition apply_UpdatePropertyDto :: "nat \<Rightarrow> UpdatePropertyDto \<Rightarrow> Property \<Rightarrow> Property" where
  "apply_UpdatePropertyDto now data p =
     p\<lparr> pr_name := (case up_name data of None \<Rightarrow> pr_name p | Some n \<Rightarrow> n),
        pr_type := (case up_type data of None \<Rightarrow> pr_type p | Some t \<Rightarrow> t),
        pr_description := (case up_description data of None \<Rightarrow> pr_description p | Some d \<Rightarrow> d),
        pr_validation_rules :=
          (case up_validation_rules data of None \<Rightarrow> pr_validation_rules p
           | Some r \<Rightarrow> Some (jsonb_object r)),
        pr_update_time := now \<rparr>"

definition update_Property ::
    "nat \<Rightarrow> nat \<Rightarrow> UpdatePropertyDto \<Rightarrow> Database \<Rightarrow> (error + Property option) \<times> Database" where
  "update_Property now i data db =
     (if \<not> available db then (Inl connection_lost, db)
      else case find (\<lambda>p. pr_id p = i) (properties db) of
        None \<Rightarrow> (findById_Property db i, db)
      | Some old \<Rightarrow>
          let new = apply_UpdatePropertyDto now data old in
          if list_ex (\<lambda>p. pr_id p \<noteq> i \<and> pr_name p = pr_name new \<and> pr_type p = pr_type new) (properties db)
          then (Inl duplicate_key, db)
          else
            let db' = db\<lparr> properties :=
                          map (\<lambda>p. if pr_id p = i then apply_UpdatePropertyDto now data p else p)
                            (properties db) \<rparr>
            in (findById_Property db' i, db'))"

subsection \<open>TrackingPlanRepository\<close>

definition findByName :: "Database \<Rightarrow> string \<Rightarrow> error + TrackingPlan option" where
  "findByName db n =
     run_query db (find (\<lambda>p. tp_name p = n \<and> \<not> tp_is_deleted p) (plans db))"

definition findById_TrackingPlan :: "Database \<Rightarrow> nat \<Rightarrow> error + TrackingPlan option" where
  "findById_TrackingPlan db i =
     run_query db (find (\<lambda>p. tp_id p = i \<and> \<not> tp_is_deleted p) (plans db))"

definition findByNameExcludingId :: "Database \<Rightarrow> string \<Rightarrow> nat \<Rightarrow> error + TrackingPlan option" where
  "findByNameExcludingId db n excludeId =
     run_query db (find (\<lambda>p. tp_name p = n \<and> \<not> tp_is_deleted p \<and> tp_id p \<noteq> excludeId) (plans db))"

definition create_TrackingPlan ::
    "nat \<Rightarrow> string \<Rightarrow> string \<Rightarrow> nat \<Rightarrow> Database \<Rightarrow> (error + TrackingPlan) \<times> Database" where
  "create_TrackingPlan now n d ct db =
     (if \<not> available db then (Inl connection_lost, db)
      else if list_ex (\<lambda>p. tp_name p = n) (plans db) then (Inl duplicate_key, db)
      else
        let p = \<lparr> tp_id = next_id db, tp_name = n, tp_description = d, tp_create_time = ct,
                  tp_update_time = now, tp_is_deleted = False, tp_deleted_at = None \<rparr>
        in (Inr p, db\<lparr> plans := plans db @ [p], next_id := Suc (next_id db) \<rparr>))"

definition softDelete_TrackingPlan :: "nat \<Rightarrow> nat \<Rightarrow> Database \<Rightarrow> (error + bool) \<times> Database" where
  "softDelete_TrackingPlan now i db =
     (if \<not> available db then (Inl connection_lost, db)
      else (Inr (length (filter (\<lambda>p. tp_id p = i) (plans db)) = 1),
            db\<lparr> plans := map (\<lambda>p. if tp_id p = i
                    then p\<lparr> tp_is_deleted := True, tp_deleted_at := Some now, tp_update_time := now \<rparr>
                    else p) (plans db) \<rparr>))"

text \<open>
  \<open>update(id, updateData)\<close> on the plans table, where \<open>updateData\<close> holds the new
  name and the new description when they are given.
\<close>

definition apply_plan_update :: "nat \<Rightarrow> string option \<Rightarrow> string option \<Rightarrow> TrackingPlan \<Rightarrow> TrackingPlan" where
  "apply_plan_update now n d p =
     p\<lparr> tp_name := (case n of None \<Rightarrow> tp_name p | Some x \<Rightarrow> x),
        tp_description := (case d of None \<Rightarrow> tp_description p | Some x \<Rightarrow> x),
        tp_update_time := now \<rparr>"

definition update_TrackingPlan ::
    "nat \<Rightarrow> nat \<Rightarrow> string option \<Rightarrow> string option \<Rightarrow> Database
      \<Rightarrow> (error + TrackingPlan option) \<times> Database" where
  "update_TrackingPlan now i n d db =
     (if \<not> available db then (Inl connection_lost, db)
      else case find (\<lambda>p. tp_id p = i) (plans db) of
        None \<Rightarrow> (findById_TrackingPlan db i, db)
      | Some old \<Rightarrow>
          if list_ex (\<lambda>p. tp_id p \<noteq> i \<and> tp_name p = tp_name (apply_plan_update now n d old)) (plans db)
          then (Inl duplicate_key, db)
          else
            let db' = db\<lparr> plans := map (\<lambda>p. if tp_id p = i then apply_plan_update now n d p else p)
                                     (plans db) \<rparr>
            in (findById_TrackingPlan db' i, db'))"

subsection \<open>The link tables, written through the query runner\<close>

text \<open>
  \<open>queryRunner.manager.getRepository(TrackingPlanEvent)\<close> and
  \<open>getRepository(EventProperty)\<close>: \<open>create\<close> followed by \<open>save\<close> inserts a link row.
  Both tables have a unique index on their pair of foreign keys, again without a
  condition on \<open>is_deleted\<close>. These statements, and \<open>COMMIT\<close> and \<open>ROLLBACK\<close>,
  travel on the connection of the query runner: they fail with a driver error once
  that connection is lost.
\<close>

definition runner_up :: "Database \<Rightarrow> bool" where
  "runner_up db = (case runner_statements db of None \<Rightarrow> True | Some k \<Rightarrow> 0 < k)"

definition runner_used :: "Database \<Rightarrow> Database" where
  "runner_used db = db\<lparr> runner_statements := map_option (\<lambda>k. k - 1) (runner_statements db) \<rparr>"

definition save_TrackingPlanEvent ::
    "nat \<Rightarrow> nat \<Rightarrow> nat \<Rightarrow> bool \<Rightarrow> Database \<Rightarrow> (error + TrackingPlanEvent) \<times> Database" where
  "save_TrackingPlanEvent now plan_id event_id additional db =
     (if \<not> available db then (Inl connection_lost, db)
      else if \<not> runner_up db then (Inl connection_lost, db)
      else if list_ex (\<lambda>l. tpe_tracking_plan_id l = plan_id \<and> tpe_event_id l = event_id)
                (tracking_plan_events db)
        then (Inl duplicate_key, runner_used db)
      else
        let l = \<lparr> tpe_id = next_id db, tpe_tracking_plan_id = plan_id, tpe_event_id = event_id,
                  tpe_additional_properties = additional, tpe_created_at = now,
                  tpe_is_deleted = False, tpe_deleted_at = None \<rparr>
        in (Inr l, (runner_used db)\<lparr> tracking_plan_events := tracking_plan_events db @ [l],
                                     next_id := Suc (next_id db) \<rparr>))"

definition save_EventProperty ::
    "nat \<Rightarrow> nat \<Rightarrow> nat \<Rightarrow> bool \<Rightarrow> Database \<Rightarrow> (error + EventProperty) \<times> Database" where
  "save_EventProperty now link_id property_id req db =
     (if \<not> available db then (Inl connection_lost, db)
      else if \<not> runner_up db then (Inl connection_lost, db)
      else if list_ex (\<lambda>l. ep_tracking_plan_event_id l = link_id \<and> ep_property_id l = property_id)
                (event_properties db)
        then (Inl duplicate_key, runner_used db)
      else
        let l = \<lparr> ep_id = next_id db, ep_tracking_plan_event_id = link_id,
                  ep_property_id = property_id, ep_required = req, ep_created_at = now,
                  ep_is_deleted = False, ep_deleted_at = None \<rparr>
        in (Inr l, (runner_used db)\<lparr> event_properties := event_properties db @ [l],
                                     next_id := Suc (next_id db) \<rparr>))"

text \<open>
  \<open>trackingPlanEventRepo.update({ tracking_plan_id: id }, { is_deleted: true,
  deleted_at: new Date() })\<close>: every link row of the plan is marked deleted.
\<close>

definition softDelete_links_of_plan :: "nat \<Rightarrow> nat \<Rightarrow> Database \<Rightarrow> (error + unit) \<times> Database" where
  "softDelete_links_of_plan now plan_id db =
     (if \<not> available db then (Inl connection_lost, db)
      else if \<not> runner_up db then (Inl connection_lost, db)
      else (Inr (),
            (runner_used db)\<lparr> tracking_plan_events :=
                  map (\<lambda>l. if tpe_tracking_plan_id l = plan_id
                           then l\<lparr> tpe_is_deleted := True, tpe_deleted_at := Some now \<rparr> else l)
                    (tracking_plan_events db) \<rparr>))"

subsection \<open>Transactions\<close>

text \<open>
  The repositories of the services are built on \<open>AppDataSource.getRepository\<close>
  (see \<open>BaseRepository\<close>): their statements run on the data source's own
  connections and are committed one by one. Only the statements issued through
  \<open>queryRunner.manager\<close>, that is the writes to the two link tables, belong to the
  transaction of the query runner. Giving the transaction up therefore restores the
  link tables to their contents at \<open>startTransaction\<close> and leaves the other tables as
  they are.
\<close>

definition discard_transaction :: "Database \<Rightarrow> Database \<Rightarrow> Database" where
  "discard_transaction started db =
     db\<lparr> tracking_plan_events := tracking_plan_events started,
         event_properties := event_properties started \<rparr>"

text \<open>
  \<open>queryRunner.rollbackTransaction()\<close> and \<open>commitTransaction()\<close> are statements on
  the runner's connection. When the connection is lost they reject, and the database
  gives the open transaction up by itself.
\<close>

definition rollbackTransaction :: "Database \<Rightarrow> Database \<Rightarrow> (error + unit) \<times> Database" where
  "rollbackTransaction started db =
     (if runner_up db then (Inr (), discard_transaction started db)
      else (Inl connection_lost, discard_transaction started db))"

definition commitTransaction :: "Database \<Rightarrow> (error + unit) \<times> Database" where
  "commitTransaction db =
     (if runner_up db then (Inr (), db) else (Inl connection_lost, db))"

text \<open>
  The end of a \<open>try\<close> block that commits, and the \<open>catch\<close> block of the two
  transactional methods: \<open>await queryRunner.rollbackTransaction()\<close> comes first, and
  the failure result is returned only if the rollback itself does not reject.
\<close>

definition then_commit :: "(error + 'a) \<times> Database \<Rightarrow> (error + 'a) \<times> Database" where
  "then_commit r =
     (case r of
        (Inl e, db) \<Rightarrow> (Inl e, db)
      | (Inr x, db) \<Rightarrow>
          (case commitTransaction db of
             (Inl e, db') \<Rightarrow> (Inl e, db')
           | (Inr u, db') \<Rightarrow> (Inr x, db')))"

definition catch_rollback ::
    "string \<Rightarrow> Database \<Rightarrow> error \<Rightarrow> Database \<Rightarrow> 'a ServiceResponse outcome \<times> Database" where
  "catch_rollback c started e db =
     (case rollbackTransaction started db of
        (Inl e', db') \<Rightarrow> (Throws e', db')
      | (Inr u, db') \<Rightarrow> (Returns (Failure c (error_message e)), db'))"

section \<open>EventService.findOrCreateEvent\<close>

text \<open>\<open>data.create_time || new Date()\<close>: a date is always truthy.\<close>

definition or_now :: "nat option \<Rightarrow> nat \<Rightarrow> nat" where
  "or_now ct now = (case ct of None \<Rightarrow> now | Some t \<Rightarrow> t)"

definition event_conflict_message :: "string \<Rightarrow> EventType \<Rightarrow> string" where
  "event_conflict_message n t =
     ''Event '' @ sq @ n @ sq @ '' of type '' @ sq @ EventType_value t @ sq
       @ '' already exists with different description''"

definition findOrCreateEvent :: "nat \<Rightarrow> CreateEventDto \<Rightarrow> Database \<Rightarrow> (error + Event) \<times> Database" where
  "findOrCreateEvent now data db =
     (case findByNameAndType_Event db (ce_name data) (ce_type data) of
        Inl e \<Rightarrow> (Inl e, db)
      | Inr (Some existingEvent) \<Rightarrow>
          if ev_description existingEvent \<noteq> ce_description data
          then (Inl (ConflictError (event_conflict_message (ce_name data) (ce_type data))), db)
          else (Inr existingEvent, db)
      | Inr None \<Rightarrow>
          create_Event now (ce_name data) (ce_type data) (ce_description data)
            (or_now (ce_create_time data) now) db)"

section \<open>PropertyService.findOrCreateProperty\<close>

text \<open>
  \<open>new RegExp(v)\<close> converts \<open>v\<close> to a string and compiles it. The conversion is
  \<open>ToString\<close>; whether a pattern compiles is decided by the regular-expression
  grammar of the language, which the services take from the runtime: it is the
  parameter \<open>compiles\<close> below.
\<close>

fun ToString_elem :: "jsval \<Rightarrow> string" where
  "ToString_elem JNull = []"
| "ToString_elem (JBool b) = (if b then ''true'' else ''false'')"
| "ToString_elem (JNum n) = show_int n"
| "ToString_elem (JStr s) = s"
| "ToString_elem (JArr vs) = join_comma (map ToString_elem vs)"

fun ToString :: "jsval \<Rightarrow> string" where
  "ToString JNull = ''null''"
| "ToString (JArr vs) = join_comma (map ToString_elem vs)"
| "ToString v = ToString_elem v"

text \<open>The guard \<open>rules.k && P(rules.k)\<close>.\<close>

definition present_and :: "PropertyValidationRules \<Rightarrow> string \<Rightarrow> (jsval \<Rightarrow> bool) \<Rightarrow> bool" where
  "present_and rules k P = (case field rules k of None \<Rightarrow> False | Some v \<Rightarrow> truthy v \<and> P v)"

definition validate_regex :: "(string \<Rightarrow> bool) \<Rightarrow> PropertyValidationRules \<Rightarrow> error + unit" where
  "validate_regex compiles rules =
     (if present_and rules ''regex'' (\<lambda>v. \<not> compiles (ToString v))
      then Inl (ValidationError ''Invalid regex pattern in validation rules'')
      else Inr ())"

definition validatePropertyRules ::
    "(string \<Rightarrow> bool) \<Rightarrow> PropertyValidationRules \<Rightarrow> PropertyType \<Rightarrow> error + unit" where
  "validatePropertyRules compiles rules t =
     (if t = STRING then
        (if present_and rules ''min'' (\<lambda>v. typeof v \<noteq> ''number'')
           then Inl (ValidationError ''String property min length must be a number'')
         else if present_and rules ''max'' (\<lambda>v. typeof v \<noteq> ''number'')
           then Inl (ValidationError ''String property max length must be a number'')
         else if present_and rules ''regex'' (\<lambda>v. typeof v \<noteq> ''string'')
           then Inl (ValidationError ''String property regex must be a string'')
         else validate_regex compiles rules)
      else if t = NUMBER then
        (if present_and rules ''min'' (\<lambda>v. typeof v \<noteq> ''number'')
           then Inl (ValidationError ''Number property min value must be a number'')
         else if present_and rules ''max'' (\<lambda>v. typeof v \<noteq> ''number'')
           then Inl (ValidationError ''Number property max value must be a number'')
         else validate_regex compiles rules)
      else if t = BOOLEAN then
        (if present_and rules ''enum'' (\<lambda>v. \<not> isArray v)
           then Inl (ValidationError ''Boolean property enum must be an array'')
         else validate_regex compiles rules)
      else validate_regex compiles rules)"

text \<open>\<open>if (data.validation_rules) this.validatePropertyRules(...)\<close>: an object is truthy.\<close>

definition validate_if_provided ::
    "(string \<Rightarrow> bool) \<Rightarrow> PropertyValidationRules option \<Rightarrow> PropertyType \<Rightarrow> error + unit" where
  "validate_if_provided compiles rules t =
     (case rules of None \<Rightarrow> Inr () | Some r \<Rightarrow> validatePropertyRules compiles r t)"

text \<open>
  \<open>r || null\<close> on a rule set: \<open>null\<close> and \<open>undefined\<close> both give \<open>null\<close>; an
  object, empty or not, is truthy and is kept.
\<close>

definition or_null :: "PropertyValidationRules option \<Rightarrow> PropertyValidationRules option" where
  "or_null r = (case r of None \<Rightarrow> None | Some x \<Rightarrow> Some x)"

definition property_conflict_message :: "string \<Rightarrow> PropertyType \<Rightarrow> string \<Rightarrow> string" where
  "property_conflict_message n t what =
     ''Property '' @ sq @ n @ sq @ '' of type '' @ sq @ PropertyType_value t @ sq
       @ '' already exists with different '' @ what"

text \<open>The comparison of rule sets in \<open>findOrCreateProperty\<close>.\<close>

definition rules_differ ::
    "PropertyValidationRules option \<Rightarrow> PropertyValidationRules option \<Rightarrow> bool" where
  "rules_differ existing new = (JSON_stringify (or_null existing) \<noteq> JSON_stringify (or_null new))"

definition findOrCreateProperty ::
    "(string \<Rightarrow> bool) \<Rightarrow> nat \<Rightarrow> CreatePropertyDto \<Rightarrow> Database \<Rightarrow> (error + Property) \<times> Database" where
  "findOrCreateProperty compiles now data db =
     (case findByNameAndType_Property db (cp_name data) (cp_type data) of
        Inl e \<Rightarrow> (Inl e, db)
      | Inr (Some existingProperty) \<Rightarrow>
          if pr_description existingProperty \<noteq> cp_description data
          then (Inl (ConflictError
                  (property_conflict_message (cp_name data) (cp_type data) ''description'')), db)
          else if rules_differ (pr_validation_rules existingProperty) (cp_validation_rules data)
          then (Inl (ConflictError
                  (property_conflict_message (cp_name data) (cp_type data) ''validation rules'')), db)
          else (Inr existingProperty, db)
      | Inr None \<Rightarrow>
          (case validate_if_provided compiles (cp_validation_rules data) (cp_type data) of
             Inl e \<Rightarrow> (Inl e, db)
           | Inr u \<Rightarrow>
               create_Property now (cp_name data) (cp_type data) (cp_description data)
                 (cp_validation_rules data) (or_now (cp_create_time data) now) db))"

section \<open>TrackingPlanService.createTrackingPlan\<close>

text \<open>
  The inner loop over \<open>eventData.properties\<close>: resolve the property, insert the
  event-property link under the plan-event link just created, and collect the entry
  of the response.
\<close>

fun processProperties ::
    "(string \<Rightarrow> bool) \<Rightarrow> nat \<Rightarrow> nat option \<Rightarrow> nat \<Rightarrow> EventPropertyDto list \<Rightarrow> Database
      \<Rightarrow> (error + PropertyEntry list) \<times> Database" where
  "processProperties compiles now ct link_id [] db = (Inr [], db)"
| "processProperties compiles now ct link_id (propertyData # rest) db =
     (case findOrCreateProperty compiles now
             \<lparr> cp_name = epd_name propertyData, cp_type = epd_type propertyData,
               cp_description = epd_description propertyData,
               cp_validation_rules = epd_validation_rules propertyData,
               cp_create_time = ct \<rparr> db of
        (Inl e, db1) \<Rightarrow> (Inl e, db1)
      | (Inr property, db1) \<Rightarrow>
          (case save_EventProperty now link_id (pr_id property) (epd_required propertyData) db1 of
             (Inl e, db2) \<Rightarrow> (Inl e, db2)
           | (Inr eventProperty, db2) \<Rightarrow>
               (case processProperties compiles now ct link_id rest db2 of
                  (Inl e, db3) \<Rightarrow> (Inl e, db3)
                | (Inr createdProperties, db3) \<Rightarrow>
                    (Inr (\<lparr> pe_id = pr_id property, pe_name = pr_name property,
                            pe_type = pr_type property, pe_description = pr_description property,
                            pe_required = epd_required propertyData,
                            pe_validation_rules = or_null (pr_validation_rules property) \<rparr>
                          # createdProperties), db3))))"

text \<open>The outer loop over \<open>data.events\<close>.\<close>

fun processEvents ::
    "(string \<Rightarrow> bool) \<Rightarrow> nat \<Rightarrow> nat option \<Rightarrow> nat \<Rightarrow> TrackingPlanEventDto list \<Rightarrow> Database
      \<Rightarrow> (error + EventEntry list) \<times> Database" where
  "processEvents compiles now ct plan_id [] db = (Inr [], db)"
| "processEvents compiles now ct plan_id (eventData # rest) db =
     (case findOrCreateEvent now
             \<lparr> ce_name = tped_name eventData, ce_type = tped_type eventData,
               ce_description = tped_description eventData, ce_create_time = ct \<rparr> db of
        (Inl e, db1) \<Rightarrow> (Inl e, db1)
      | (Inr event, db1) \<Rightarrow>
          (case save_TrackingPlanEvent now plan_id (ev_id event)
                  (tped_additionalProperties eventData) db1 of
             (Inl e, db2) \<Rightarrow> (Inl e, db2)
           | (Inr trackingPlanEvent, db2) \<Rightarrow>
               (case processProperties compiles now ct (tpe_id trackingPlanEvent)
                       (tped_properties eventData) db2 of
                  (Inl e, db3) \<Rightarrow> (Inl e, db3)
                | (Inr createdProperties, db3) \<Rightarrow>
                    (case processEvents compiles now ct plan_id rest db3 of
                       (Inl e, db4) \<Rightarrow> (Inl e, db4)
                     | (Inr createdEvents, db4) \<Rightarrow>
                         (Inr (\<lparr> ee_id = ev_id event, ee_name = ev_name event,
                                 ee_type = ev_type event, ee_description = ev_description event,
                                 ee_additionalProperties = tped_additionalProperties eventData,
                                 ee_properties = createdProperties \<rparr>
                               # createdEvents), db4)))))"

text \<open>The body of the \<open>try\<close> block, up to \<open>commitTransaction\<close>.\<close>

definition createTrackingPlan_try ::
    "(string \<Rightarrow> bool) \<Rightarrow> nat \<Rightarrow> CreateTrackingPlanDto \<Rightarrow> Database
      \<Rightarrow> (error + TrackingPlanResponseDto) \<times> Database" where
  "createTrackingPlan_try compiles now data db =
     (case findByName db (ctp_name data) of
        Inl e \<Rightarrow> (Inl e, db)
      | Inr (Some existingPlan) \<Rightarrow> (Inl (UniqueConstraintError ''TrackingPlan'' (ctp_name data)), db)
      | Inr None \<Rightarrow>
          (case create_TrackingPlan now (ctp_name data) (ctp_description data)
                  (or_now (ctp_create_time data) now) db of
             (Inl e, db1) \<Rightarrow> (Inl e, db1)
           | (Inr trackingPlan, db1) \<Rightarrow>
               (case processEvents compiles now (ctp_create_time data) (tp_id trackingPlan)
                       (ctp_events data) db1 of
                  (Inl e, db2) \<Rightarrow> (Inl e, db2)
                | (Inr createdEvents, db2) \<Rightarrow>
                    (Inr \<lparr> res_id = tp_id trackingPlan, res_name = tp_name trackingPlan,
                           res_description = tp_description trackingPlan,
                           res_create_time = tp_create_time trackingPlan,
                           res_update_time = tp_update_time trackingPlan,
                           res_is_deleted = tp_is_deleted trackingPlan,
                           res_deleted_at = tp_deleted_at trackingPlan,
                           res_events = createdEvents \<rparr>, db2))))"

text \<open>
  The whole method. \<open>queryRunner.connect()\<close> and \<open>startTransaction()\<close> stand before
  the \<open>try\<close>: when they fail, the promise is rejected. The \<open>try\<close> block ends with
  \<open>commitTransaction()\<close>. An error inside the \<open>try\<close> is caught: the transaction
  is rolled back and a failure result is returned, unless the rollback rejects too.
\<close>

definition createTrackingPlan ::
    "(string \<Rightarrow> bool) \<Rightarrow> nat \<Rightarrow> CreateTrackingPlanDto \<Rightarrow> Database
      \<Rightarrow> TrackingPlanResponseDto ServiceResponse outcome \<times> Database" where
  "createTrackingPlan compiles now data db =
     (if \<not> available db then (Throws connection_lost, db)
      else case then_commit (createTrackingPlan_try compiles now data db) of
        (Inr response, db') \<Rightarrow> (Returns (Success response), db')
      | (Inl e, db') \<Rightarrow> catch_rollback ''CREATE_TRACKING_PLAN_ERROR'' db e db')"

section \<open>Reading a plan back\<close>

text \<open>
  \<open>findWithEvents\<close> loads the plan with its plan-event links, each with its event
  and its event-property links, each of those with its property. The relations are
  joins on the foreign keys and do not look at \<open>is_deleted\<close>; \<open>mapToResponseDto\<close>
  then drops the deleted links. Reading \<open>tpe.event.id\<close> or \<open>ep.property.id\<close> of a
  link whose target row is missing is a \<open>TypeError\<close>.
\<close>

definition null_read :: error where
  "null_read = TypeError ''Cannot read properties of null''"

fun sequence_err :: "(error + 'a) list \<Rightarrow> error + 'a list" where
  "sequence_err [] = Inr []"
| "sequence_err (Inl e # rs) = Inl e"
| "sequence_err (Inr x # rs) = (case sequence_err rs of Inl e \<Rightarrow> Inl e | Inr xs \<Rightarrow> Inr (x # xs))"

definition property_entry :: "Database \<Rightarrow> EventProperty \<Rightarrow> error + PropertyEntry" where
  "property_entry db ep =
     (case find (\<lambda>p. pr_id p = ep_property_id ep) (properties db) of
        None \<Rightarrow> Inl null_read
      | Some p \<Rightarrow>
          Inr \<lparr> pe_id = pr_id p, pe_name = pr_name p, pe_type = pr_type p,
                pe_description = pr_description p, pe_required = ep_required ep,
                pe_validation_rules = or_null (pr_validation_rules p) \<rparr>)"

definition event_entry :: "Database \<Rightarrow> TrackingPlanEvent \<Rightarrow> error + EventEntry" where
  "event_entry db tpe =
     (case find (\<lambda>e. ev_id e = tpe_event_id tpe) (events db) of
        None \<Rightarrow> Inl null_read
      | Some e \<Rightarrow>
          (case sequence_err (map (property_entry db)
                  (filter (\<lambda>ep. ep_tracking_plan_event_id ep = tpe_id tpe \<and> \<not> ep_is_deleted ep)
                     (event_properties db))) of
             Inl err \<Rightarrow> Inl err
           | Inr ps \<Rightarrow>
               Inr \<lparr> ee_id = ev_id e, ee_name = ev_name e, ee_type = ev_type e,
                     ee_description = ev_description e,
                     ee_additionalProperties = tpe_additional_properties tpe,
                     ee_properties = ps \<rparr>))"

definition mapToResponseDto :: "Database \<Rightarrow> TrackingPlan \<Rightarrow> error + TrackingPlanResponseDto" where
  "mapToResponseDto db trackingPlan =
     (case sequence_err (map (event_entry db)
             (filter (\<lambda>tpe. tpe_tracking_plan_id tpe = tp_id trackingPlan \<and> \<not> tpe_is_deleted tpe)
                (tracking_plan_events db))) of
        Inl err \<Rightarrow> Inl err
      | Inr es \<Rightarrow>
          Inr \<lparr> res_id = tp_id trackingPlan, res_name = tp_name trackingPlan,
                res_description = tp_description trackingPlan,
                res_create_time = tp_create_time trackingPlan,
                res_update_time = tp_update_time trackingPlan,
                res_is_deleted = tp_is_deleted trackingPlan,
                res_deleted_at = tp_deleted_at trackingPlan,
                res_events = es \<rparr>)"

definition findWithEvents :: "Database \<Rightarrow> nat \<Rightarrow> error + TrackingPlan option" where
  "findWithEvents db i = findById_TrackingPlan db i"

section \<open>TrackingPlanService: read, update, delete\<close>

definition getTrackingPlanById ::
    "nat \<Rightarrow> Database \<Rightarrow> TrackingPlanResponseDto ServiceResponse outcome" where
  "getTrackingPlanById i db =
     Returns (catch_as ''GET_TRACKING_PLAN_ERROR''
       (case findWithEvents db i of
          Inl e \<Rightarrow> Inl e
        | Inr None \<Rightarrow> Inl (NotFoundError ''TrackingPlan'')
        | Inr (Some trackingPlan) \<Rightarrow> mapToResponseDto db trackingPlan))"

text \<open>A string that is given: present and not empty (\<open>if (data.name)\<close>).\<close>

definition given :: "string option \<Rightarrow> bool" where
  "given s = (case s of None \<Rightarrow> False | Some x \<Rightarrow> x \<noteq> [])"

definition if_given :: "string option \<Rightarrow> string option" where
  "if_given s = (if given s then s else None)"

text \<open>\<open>s || d\<close> on an optional string, and the truthiness of an optional enum value.\<close>

definition or_else :: "string option \<Rightarrow> string \<Rightarrow> string" where
  "or_else s d = (case s of None \<Rightarrow> d | Some x \<Rightarrow> if x = [] then d else x)"

definition provided :: "'a option \<Rightarrow> bool" where
  "provided x = (case x of None \<Rightarrow> False | Some y \<Rightarrow> True)"

text \<open>The loops of \<open>updateTrackingPlan\<close>: as in create, without a response being built.\<close>

fun updateProperties ::
    "(string \<Rightarrow> bool) \<Rightarrow> nat \<Rightarrow> nat \<Rightarrow> EventPropertyDto list \<Rightarrow> Database \<Rightarrow> (error + unit) \<times> Database" where
  "updateProperties compiles now link_id [] db = (Inr (), db)"
| "updateProperties compiles now link_id (propertyData # rest) db =
     (case findOrCreateProperty compiles now
             \<lparr> cp_name = epd_name propertyData, cp_type = epd_type propertyData,
               cp_description = epd_description propertyData,
               cp_validation_rules = epd_validation_rules propertyData,
               cp_create_time = None \<rparr> db of
        (Inl e, db1) \<Rightarrow> (Inl e, db1)
      | (Inr property, db1) \<Rightarrow>
          (case save_EventProperty now link_id (pr_id property) (epd_required propertyData) db1 of
             (Inl e, db2) \<Rightarrow> (Inl e, db2)
           | (Inr eventProperty, db2) \<Rightarrow> updateProperties compiles now link_id rest db2))"

fun updateEvents ::
    "(string \<Rightarrow> bool) \<Rightarrow> nat \<Rightarrow> nat \<Rightarrow> TrackingPlanEventDto list \<Rightarrow> Database \<Rightarrow> (error + unit) \<times> Database" where
  "updateEvents compiles now plan_id [] db = (Inr (), db)"
| "updateEvents compiles now plan_id (eventData # rest) db =
     (case findOrCreateEvent now
             \<lparr> ce_name = tped_name eventData, ce_type = tped_type eventData,
               ce_description = tped_description eventData, ce_create_time = None \<rparr> db of
        (Inl e, db1) \<Rightarrow> (Inl e, db1)
      | (Inr event, db1) \<Rightarrow>
          (case save_TrackingPlanEvent now plan_id (ev_id event)
                  (tped_additionalProperties eventData) db1 of
             (Inl e, db2) \<Rightarrow> (Inl e, db2)
           | (Inr trackingPlanEvent, db2) \<Rightarrow>
               (case updateProperties compiles now (tpe_id trackingPlanEvent)
                       (tped_properties eventData) db2 of
                  (Inl e, db3) \<Rightarrow> (Inl e, db3)
                | (Inr u, db3) \<Rightarrow> updateEvents compiles now plan_id rest db3)))"

text \<open>
  The three steps of the \<open>try\<close> block before \<open>commitTransaction\<close>: the lookup and the
  uniqueness check of a changed name, the update of the plan row, and the replacement
  of the links when an event list is supplied (an empty list is an array, hence truthy).
\<close>

definition update_check_name :: "nat \<Rightarrow> UpdateTrackingPlanDto \<Rightarrow> Database \<Rightarrow> error + unit" where
  "update_check_name i data db =
     (case findById_TrackingPlan db i of
        Inl e \<Rightarrow> Inl e
      | Inr None \<Rightarrow> Inl (NotFoundError ''TrackingPlan'')
      | Inr (Some existingPlan) \<Rightarrow>
          (case utp_name data of
             None \<Rightarrow> Inr ()
           | Some n \<Rightarrow>
               if n \<noteq> [] \<and> n \<noteq> tp_name existingPlan
               then (case findByNameExcludingId db n i of
                       Inl e \<Rightarrow> Inl e
                     | Inr (Some conflictingPlan) \<Rightarrow> Inl (UniqueConstraintError ''TrackingPlan'' n)
                     | Inr None \<Rightarrow> Inr ())
               else Inr ()))"

definition update_basic_info ::
    "nat \<Rightarrow> nat \<Rightarrow> UpdateTrackingPlanDto \<Rightarrow> Database \<Rightarrow> (error + unit) \<times> Database" where
  "update_basic_info now i data db =
     (if given (utp_name data) \<or> given (utp_description data)
      then (case update_TrackingPlan now i (if_given (utp_name data)) (if_given (utp_description data)) db of
              (Inl e, db1) \<Rightarrow> (Inl e, db1)
            | (Inr p, db1) \<Rightarrow> (Inr (), db1))
      else (Inr (), db))"

definition update_relationships ::
    "(string \<Rightarrow> bool) \<Rightarrow> nat \<Rightarrow> nat \<Rightarrow> UpdateTrackingPlanDto \<Rightarrow> Database \<Rightarrow> (error + unit) \<times> Database" where
  "update_relationships compiles now i data db =
     (case utp_events data of
        None \<Rightarrow> (Inr (), db)
      | Some evs \<Rightarrow>
          (case softDelete_links_of_plan now i db of
             (Inl e, db1) \<Rightarrow> (Inl e, db1)
           | (Inr u, db1) \<Rightarrow> updateEvents compiles now i evs db1))"

definition updateTrackingPlan_try ::
    "(string \<Rightarrow> bool) \<Rightarrow> nat \<Rightarrow> nat \<Rightarrow> UpdateTrackingPlanDto \<Rightarrow> Database \<Rightarrow> (error + unit) \<times> Database" where
  "updateTrackingPlan_try compiles now i data db =
     (case update_check_name i data db of
        Inl e \<Rightarrow> (Inl e, db)
      | Inr u \<Rightarrow>
          (case update_basic_info now i data db of
             (Inl e, db1) \<Rightarrow> (Inl e, db1)
           | (Inr u1, db1) \<Rightarrow> update_relationships compiles now i data db1))"

text \<open>
  After the commit the plan is read back, still inside the \<open>try\<close>. \<open>updatedPlan!\<close>
  is not a check: mapping a missing plan is a \<open>TypeError\<close>.
\<close>

definition fetch_updated :: "nat \<Rightarrow> Database \<Rightarrow> error + TrackingPlanResponseDto" where
  "fetch_updated i db =
     (case findWithEvents db i of
        Inl e \<Rightarrow> Inl e
      | Inr None \<Rightarrow> Inl null_read
      | Inr (Some updatedPlan) \<Rightarrow> mapToResponseDto db updatedPlan)"

text \<open>
  The whole method. An error up to and in the commit is caught and rolled back, unless
  the rollback rejects too. An error after the commit reaches the same \<open>catch\<close>
  block, whose \<open>rollbackTransaction\<close> then finds no transaction and throws in turn.
\<close>

definition updateTrackingPlan ::
    "(string \<Rightarrow> bool) \<Rightarrow> nat \<Rightarrow> nat \<Rightarrow> UpdateTrackingPlanDto \<Rightarrow> Database
      \<Rightarrow> TrackingPlanResponseDto ServiceResponse outcome \<times> Database" where
  "updateTrackingPlan compiles now i data db =
     (if \<not> available db then (Throws connection_lost, db)
      else case then_commit (updateTrackingPlan_try compiles now i data db) of
        (Inl e, db') \<Rightarrow> catch_rollback ''UPDATE_TRACKING_PLAN_ERROR'' db e db'
      | (Inr u, db') \<Rightarrow>
          (case fetch_updated i db' of
             Inr response \<Rightarrow> (Returns (Success response), db')
           | Inl e \<Rightarrow> (Throws TransactionNotStartedError, db')))"

definition deleteTrackingPlan :: "nat \<Rightarrow> nat \<Rightarrow> Database \<Rightarrow> unit ServiceResponse outcome \<times> Database" where
  "deleteTrackingPlan now i db =
     (case findById_TrackingPlan db i of
        Inl e \<Rightarrow> (Returns (Failure ''DELETE_TRACKING_PLAN_ERROR'' (error_message e)), db)
      | Inr None \<Rightarrow>
          (Returns (Failure ''DELETE_TRACKING_PLAN_ERROR''
                     (error_message (NotFoundError ''TrackingPlan''))), db)
      | Inr (Some trackingPlan) \<Rightarrow>
          (case softDelete_TrackingPlan now i db of
             (Inl e, db1) \<Rightarrow> (Returns (Failure ''DELETE_TRACKING_PLAN_ERROR'' (error_message e)), db1)
           | (Inr b, db1) \<Rightarrow> (Returns (Success ()), db1)))"

section \<open>Filtering and pagination\<close>

text \<open>
  \<open>ILike\<close> is the case-insensitive pattern match of the store; it is the parameter
  \<open>ilike pattern value\<close>. \<open>Array.prototype.slice\<close> counts a negative index from
  the end. \<open>Math.ceil(total / limit)\<close> has no integer value when \<open>limit\<close> is zero.
\<close>

record PaginationOptions =
  page :: "int option"
  limit :: "int option"

record 'a PaginatedResponse =
  pg_data :: "'a list"
  pg_page :: int
  pg_limit :: int
  pg_total :: nat
  pg_pages :: "int option"

definition slice :: "'a list \<Rightarrow> int \<Rightarrow> int \<Rightarrow> 'a list" where
  "slice xs start end =
     (let len = int (length xs);
          k = (if start < 0 then max (len + start) 0 else min start len);
          final = (if end < 0 then max (len + end) 0 else min end len)
      in take (nat (final - k)) (drop (nat k) xs))"

definition paginate :: "PaginationOptions \<Rightarrow> 'a list \<Rightarrow> 'b list \<Rightarrow> 'b PaginatedResponse" where
  "paginate pagination all shown =
     (let p = (case page pagination of None \<Rightarrow> 1 | Some x \<Rightarrow> x);
          l = (case limit pagination of None \<Rightarrow> 10 | Some x \<Rightarrow> x)
      in \<lparr> pg_data = shown, pg_page = p, pg_limit = l, pg_total = length all,
           pg_pages = (if l = 0 then None else Some (- ((- int (length all)) div l))) \<rparr>)"

definition page_of :: "PaginationOptions \<Rightarrow> 'a list \<Rightarrow> 'a list" where
  "page_of pagination xs =
     (let p = (case page pagination of None \<Rightarrow> 1 | Some x \<Rightarrow> x);
          l = (case limit pagination of None \<Rightarrow> 10 | Some x \<Rightarrow> x)
      in slice xs ((p - 1) * l) ((p - 1) * l + l))"

definition contains_pattern :: "string \<Rightarrow> string" where
  "contains_pattern s = ''%'' @ s @ ''%''"

text \<open>A filter field restricts the result only when it is given.\<close>

definition matches_opt :: "(string \<Rightarrow> string \<Rightarrow> bool) \<Rightarrow> string option \<Rightarrow> string \<Rightarrow> bool" where
  "matches_opt ilike f v = (case f of None \<Rightarrow> True
                             | Some s \<Rightarrow> if s = [] then True else ilike (contains_pattern s) v)"

record TrackingPlanFilter =
  tf_name :: "string option"
  tf_description :: "string option"

record EventFilter =
  ef_name :: "string option"
  ef_type :: "EventType option"
  ef_description :: "string option"

record PropertyFilter =
  pf_name :: "string option"
  pf_type :: "PropertyType option"
  pf_description :: "string option"

definition findByFilter_TrackingPlan ::
    "(string \<Rightarrow> string \<Rightarrow> bool) \<Rightarrow> Database \<Rightarrow> TrackingPlanFilter \<Rightarrow> error + TrackingPlan list" where
  "findByFilter_TrackingPlan ilike db f =
     run_query db (filter (\<lambda>p. \<not> tp_is_deleted p \<and> matches_opt ilike (tf_name f) (tp_name p)
                              \<and> matches_opt ilike (tf_description f) (tp_description p)) (plans db))"

definition findByFilter_Event ::
    "(string \<Rightarrow> string \<Rightarrow> bool) \<Rightarrow> Database \<Rightarrow> EventFilter \<Rightarrow> error + Event list" where
  "findByFilter_Event ilike db f =
     run_query db (filter (\<lambda>e. \<not> ev_is_deleted e \<and> matches_opt ilike (ef_name f) (ev_name e)
                              \<and> (case ef_type f of None \<Rightarrow> True | Some t \<Rightarrow> ev_type e = t)
                              \<and> matches_opt ilike (ef_description f) (ev_description e)) (events db))"

definition findByFilter_Property ::
    "(string \<Rightarrow> string \<Rightarrow> bool) \<Rightarrow> Database \<Rightarrow> PropertyFilter \<Rightarrow> error + Property list" where
  "findByFilter_Property ilike db f =
     run_query db (filter (\<lambda>p. \<not> pr_is_deleted p \<and> matches_opt ilike (pf_name f) (pr_name p)
                              \<and> (case pf_type f of None \<Rightarrow> True | Some t \<Rightarrow> pr_type p = t)
                              \<and> matches_opt ilike (pf_description f) (pr_description p)) (properties db))"

definition searchByName_Event ::
    "(string \<Rightarrow> string \<Rightarrow> bool) \<Rightarrow> Database \<Rightarrow> string \<Rightarrow> error + Event list" where
  "searchByName_Event ilike db searchTerm =
     run_query db (filter (\<lambda>e. ilike (contains_pattern searchTerm) (ev_name e) \<and> \<not> ev_is_deleted e)
                     (events db))"

definition searchByName_Property ::
    "(string \<Rightarrow> string \<Rightarrow> bool) \<Rightarrow> Database \<Rightarrow> string \<Rightarrow> error + Property list" where
  "searchByName_Property ilike db searchTerm =
     run_query db (filter (\<lambda>p. ilike (contains_pattern searchTerm) (pr_name p) \<and> \<not> pr_is_deleted p)
                     (properties db))"

text \<open>
  \<open>getAllTrackingPlans\<close>: each plan of the page is loaded again with its events; a
  plan that is no longer found is dropped (\<open>filter(Boolean)\<close>).
\<close>

definition load_plan :: "Database \<Rightarrow> TrackingPlan \<Rightarrow> error + TrackingPlanResponseDto option" where
  "load_plan db plan =
     (case findWithEvents db (tp_id plan) of
        Inl e \<Rightarrow> Inl e
      | Inr None \<Rightarrow> Inr None
      | Inr (Some fullPlan) \<Rightarrow>
          (case mapToResponseDto db fullPlan of Inl e \<Rightarrow> Inl e | Inr r \<Rightarrow> Inr (Some r)))"

definition getAllTrackingPlans ::
    "(string \<Rightarrow> string \<Rightarrow> bool) \<Rightarrow> TrackingPlanFilter \<Rightarrow> PaginationOptions \<Rightarrow> Database
      \<Rightarrow> TrackingPlanResponseDto PaginatedResponse ServiceResponse outcome" where
  "getAllTrackingPlans ilike f pagination db =
     Returns (catch_as ''GET_ALL_TRACKING_PLANS_ERROR''
       (case findByFilter_TrackingPlan ilike db f of
          Inl e \<Rightarrow> Inl e
        | Inr trackingPlans \<Rightarrow>
            (case sequence_err (map (load_plan db) (page_of pagination trackingPlans)) of
               Inl e \<Rightarrow> Inl e
             | Inr plansWithEvents \<Rightarrow>
                 Inr (paginate pagination trackingPlans (List.map_filter (\<lambda>x. x) plansWithEvents)))))"

section \<open>EventService\<close>

definition createEvent :: "nat \<Rightarrow> CreateEventDto \<Rightarrow> Database \<Rightarrow> Event ServiceResponse outcome \<times> Database" where
  "createEvent now data db =
     (case findByNameAndType_Event db (ce_name data) (ce_type data) of
        Inl e \<Rightarrow> (Returns (Failure ''CREATE_EVENT_ERROR'' (error_message e)), db)
      | Inr (Some existingEvent) \<Rightarrow>
          (Returns (Failure ''CREATE_EVENT_ERROR''
             (error_message (UniqueConstraintError ''Event''
                (ce_name data @ '':'' @ EventType_value (ce_type data))))), db)
      | Inr None \<Rightarrow>
          (case create_Event now (ce_name data) (ce_type data) (ce_description data)
                  (or_now (ce_create_time data) now) db of
             (Inl e, db1) \<Rightarrow> (Returns (Failure ''CREATE_EVENT_ERROR'' (error_message e)), db1)
           | (Inr event, db1) \<Rightarrow> (Returns (Success event), db1)))"

definition getEventById :: "nat \<Rightarrow> Database \<Rightarrow> Event ServiceResponse outcome" where
  "getEventById i db =
     Returns (catch_as ''GET_EVENT_ERROR''
       (case findById_Event db i of
          Inl e \<Rightarrow> Inl e
        | Inr None \<Rightarrow> Inl (NotFoundError ''Event'')
        | Inr (Some event) \<Rightarrow> Inr event))"

definition getAllEvents ::
    "(string \<Rightarrow> string \<Rightarrow> bool) \<Rightarrow> EventFilter \<Rightarrow> PaginationOptions \<Rightarrow> Database
      \<Rightarrow> Event PaginatedResponse ServiceResponse outcome" where
  "getAllEvents ilike f pagination db =
     Returns (catch_as ''GET_ALL_EVENTS_ERROR''
       (case findByFilter_Event ilike db f of
          Inl e \<Rightarrow> Inl e
        | Inr evs \<Rightarrow> Inr (paginate pagination evs (page_of pagination evs))))"

text \<open>
  \<open>updateEvent\<close>: the uniqueness check runs when a name or a type is given, on
  \<open>data.name || existingEvent.name\<close> and \<open>data.type || existingEvent.type\<close>.
\<close>

definition updateEvent_try ::
    "nat \<Rightarrow> nat \<Rightarrow> UpdateEventDto \<Rightarrow> Database \<Rightarrow> (error + Event option) \<times> Database" where
  "updateEvent_try now i data db =
     (case findById_Event db i of
        Inl e \<Rightarrow> (Inl e, db)
      | Inr None \<Rightarrow> (Inl (NotFoundError ''Event''), db)
      | Inr (Some existingEvent) \<Rightarrow>
          (let nameToCheck = or_else (ue_name data) (ev_name existingEvent);
               typeToCheck = (case ue_type data of None \<Rightarrow> ev_type existingEvent | Some t \<Rightarrow> t)
           in case (if given (ue_name data) \<or> provided (ue_type data)
                    then findByNameAndTypeExcludingId_Event db nameToCheck typeToCheck i
                    else Inr None) of
                Inl e \<Rightarrow> (Inl e, db)
              | Inr (Some conflictingEvent) \<Rightarrow>
                  (Inl (UniqueConstraintError ''Event''
                          (nameToCheck @ '':'' @ EventType_value typeToCheck)), db)
              | Inr None \<Rightarrow> update_Event now i data db))"

definition updateEvent ::
    "nat \<Rightarrow> nat \<Rightarrow> UpdateEventDto \<Rightarrow> Database \<Rightarrow> Event option ServiceResponse outcome \<times> Database" where
  "updateEvent now i data db =
     (case updateEvent_try now i data db of
        (r, db1) \<Rightarrow> (Returns (catch_as ''UPDATE_EVENT_ERROR'' r), db1))"

definition deleteEvent :: "nat \<Rightarrow> nat \<Rightarrow> Database \<Rightarrow> unit ServiceResponse outcome \<times> Database" where
  "deleteEvent now i db =
     (case findById_Event db i of
        Inl e \<Rightarrow> (Returns (Failure ''DELETE_EVENT_ERROR'' (error_message e)), db)
      | Inr None \<Rightarrow>
          (Returns (Failure ''DELETE_EVENT_ERROR'' (error_message (NotFoundError ''Event''))), db)
      | Inr (Some event) \<Rightarrow>
          (case softDelete_Event now i db of
             (Inl e, db1) \<Rightarrow> (Returns (Failure ''DELETE_EVENT_ERROR'' (error_message e)), db1)
           | (Inr b, db1) \<Rightarrow> (Returns (Success ()), db1)))"

definition searchEvents ::
    "(string \<Rightarrow> string \<Rightarrow> bool) \<Rightarrow> string \<Rightarrow> Database \<Rightarrow> Event list ServiceResponse outcome" where
  "searchEvents ilike searchTerm db =
     Returns (catch_as ''SEARCH_EVENTS_ERROR'' (searchByName_Event ilike db searchTerm))"

section \<open>PropertyService\<close>

definition createProperty_try ::
    "(string \<Rightarrow> bool) \<Rightarrow> nat \<Rightarrow> CreatePropertyDto \<Rightarrow> Database \<Rightarrow> (error + Property) \<times> Database" where
  "createProperty_try compiles now data db =
     (case findByNameAndType_Property db (cp_name data) (cp_type data) of
        Inl e \<Rightarrow> (Inl e, db)
      | Inr (Some existingProperty) \<Rightarrow>
          (Inl (UniqueConstraintError ''Property''
                  (cp_name data @ '':'' @ PropertyType_value (cp_type data))), db)
      | Inr None \<Rightarrow>
          (case validate_if_provided compiles (cp_validation_rules data) (cp_type data) of
             Inl e \<Rightarrow> (Inl e, db)
           | Inr u \<Rightarrow>
               create_Property now (cp_name data) (cp_type data) (cp_description data)
                 (cp_validation_rules data) (or_now (cp_create_time data) now) db))"

definition createProperty ::
    "(string \<Rightarrow> bool) \<Rightarrow> nat \<Rightarrow> CreatePropertyDto \<Rightarrow> Database
      \<Rightarrow> Property ServiceResponse outcome \<times> Database" where
  "createProperty compiles now data db =
     (case createProperty_try compiles now data db of
        (r, db1) \<Rightarrow> (Returns (catch_as ''CREATE_PROPERTY_ERROR'' r), db1))"

definition getPropertyById :: "nat \<Rightarrow> Database \<Rightarrow> Property ServiceResponse outcome" where
  "getPropertyById i db =
     Returns (catch_as ''GET_PROPERTY_ERROR''
       (case findById_Property db i of
          Inl e \<Rightarrow> Inl e
        | Inr None \<Rightarrow> Inl (NotFoundError ''Property'')
        | Inr (Some property) \<Rightarrow> Inr property))"

definition getAllProperties ::
    "(string \<Rightarrow> string \<Rightarrow> bool) \<Rightarrow> PropertyFilter \<Rightarrow> PaginationOptions \<Rightarrow> Database
      \<Rightarrow> Property PaginatedResponse ServiceResponse outcome" where
  "getAllProperties ilike f pagination db =
     Returns (catch_as ''GET_ALL_PROPERTIES_ERROR''
       (case findByFilter_Property ilike db f of
          Inl e \<Rightarrow> Inl e
        | Inr ps \<Rightarrow> Inr (paginate pagination ps (page_of pagination ps))))"

definition updateProperty_try ::
    "(string \<Rightarrow> bool) \<Rightarrow> nat \<Rightarrow> nat \<Rightarrow> UpdatePropertyDto \<Rightarrow> Database
      \<Rightarrow> (error + Property option) \<times> Database" where
  "updateProperty_try compiles now i data db =
     (case findById_Property db i of
        Inl e \<Rightarrow> (Inl e, db)
      | Inr None \<Rightarrow> (Inl (NotFoundError ''Property''), db)
      | Inr (Some existingProperty) \<Rightarrow>
          (let nameToCheck = or_else (up_name data) (pr_name existingProperty);
               typeToCheck = (case up_type data of None \<Rightarrow> pr_type existingProperty | Some t \<Rightarrow> t)
           in case (if given (up_name data) \<or> provided (up_type data)
                    then findByNameAndTypeExcludingId_Property db nameToCheck typeToCheck i
                    else Inr None) of
                Inl e \<Rightarrow> (Inl e, db)
              | Inr (Some conflictingProperty) \<Rightarrow>
                  (Inl (UniqueConstraintError ''Property''
                          (nameToCheck @ '':'' @ PropertyType_value typeToCheck)), db)
              | Inr None \<Rightarrow>
                  (case validate_if_provided compiles (up_validation_rules data) typeToCheck of
                     Inl e \<Rightarrow> (Inl e, db)
                   | Inr u \<Rightarrow> update_Property now i data db)))"

definition updateProperty ::
    "(string \<Rightarrow> bool) \<Rightarrow> nat \<Rightarrow> nat \<Rightarrow> UpdatePropertyDto \<Rightarrow> Database
      \<Rightarrow> Property option ServiceResponse outcome \<times> Database" where
  "updateProperty compiles now i data db =
     (case updateProperty_try compiles now i data db of
        (r, db1) \<Rightarrow> (Returns (catch_as ''UPDATE_PROPERTY_ERROR'' r), db1))"

definition deleteProperty :: "nat \<Rightarrow> nat \<Rightarrow> Database \<Rightarrow> unit ServiceResponse outcome \<times> Database" where
  "deleteProperty now i db =
     (case findById_Property db i of
        Inl e \<Rightarrow> (Returns (Failure ''DELETE_PROPERTY_ERROR'' (error_message e)), db)
      | Inr None \<Rightarrow>
          (Returns (Failure ''DELETE_PROPERTY_ERROR'' (error_message (NotFoundError ''Property''))), db)
      | Inr (Some property) \<Rightarrow>
          (case softDelete_Property now i db of
             (Inl e, db1) \<Rightarrow> (Returns (Failure ''DELETE_PROPERTY_ERROR'' (error_message e)), db1)
           | (Inr b, db1) \<Rightarrow> (Returns (Success ()), db1)))"

definition searchProperties ::
    "(string \<Rightarrow> string \<Rightarrow> bool) \<Rightarrow> string \<Rightarrow> Database \<Rightarrow> Property list ServiceResponse outcome" where
  "searchProperties ilike searchTerm db =
     Returns (catch_as ''SEARCH_PROPERTIES_ERROR'' (searchByName_Property ilike db searchTerm))"

section \<open>The HTTP boundary of plan creation\<close>

text \<open>
  \<open>TrackingPlanController.createTrackingPlan\<close> wraps a failure result in
  \<open>new AppError(message, 400)\<close>; \<open>asyncHandler\<close> passes that, or a rejection of
  the service, to \<open>errorHandler\<close>.
\<close>

datatype 'a HttpResponse = Json nat 'a | JsonError nat string string

fun http_status :: "'a HttpResponse \<Rightarrow> nat" where
  "http_status (Json st d) = st"
| "http_status (JsonError st c m) = st"

fun includes_str :: "string \<Rightarrow> string \<Rightarrow> bool" where
  "includes_str [] pat = (pat = [])"
| "includes_str (c # cs) pat = (take (length pat) (c # cs) = pat \<or> includes_str cs pat)"

definition errorHandler :: "error \<Rightarrow> 'a HttpResponse" where
  "errorHandler e =
     (case statusCode e of
        Some st \<Rightarrow> JsonError st (constructor_name e) (error_message e)
      | None \<Rightarrow>
          if error_name e = ''QueryFailedError''
            then JsonError 400 ''DATABASE_ERROR'' ''Database query failed''
          else if includes_str (error_message e) ''duplicate key value''
                  \<or> includes_str (error_message e) ''UNIQUE constraint''
            then JsonError 409 ''UNIQUE_CONSTRAINT_ERROR'' ''Resource already exists''
          else JsonError 500 ''INTERNAL_SERVER_ERROR'' ''An unexpected error occurred'')"

definition post_tracking_plan ::
    "(string \<Rightarrow> bool) \<Rightarrow> nat \<Rightarrow> CreateTrackingPlanDto \<Rightarrow> Database
      \<Rightarrow> TrackingPlanResponseDto HttpResponse \<times> Database" where
  "post_tracking_plan compiles now body db =
     (case createTrackingPlan compiles now body db of
        (Throws e, db') \<Rightarrow> (errorHandler e, db')
      | (Returns (Failure c m), db') \<Rightarrow> (errorHandler (AppError m 400), db')
      | (Returns (Success d), db') \<Rightarrow> (Json 201 d, db'))"

section \<open>Projections used in the statements\<close>

text \<open>The persistent rows of a store, without the key counter.\<close>

definition tables ::
    "Database \<Rightarrow> TrackingPlan list \<times> Event list \<times> Property list \<times> TrackingPlanEvent list \<times> EventProperty list" where
  "tables db = (plans db, events db, properties db, tracking_plan_events db, event_properties db)"

text \<open>The number of property rows, deleted or not, with a given identity.\<close>

definition property_rows :: "Database \<Rightarrow> string \<Rightarrow> PropertyType \<Rightarrow> nat" where
  "property_rows db n t = length (filter (\<lambda>p. pr_name p = n \<and> pr_type p = t) (properties db))"

text \<open>
  Between two stores, the rows of an identity are as many as before, or there were
  none and there is one now.
\<close>

definition rows_step :: "Database \<Rightarrow> Database \<Rightarrow> string \<Rightarrow> PropertyType \<Rightarrow> bool" where
  "rows_step db db' n t =
     (property_rows db' n t = property_rows db n t
      \<or> (property_rows db n t = 0 \<and> property_rows db' n t = 1))"

text \<open>The row that the lookup by (name, type) resolves an identity to.\<close>

definition resolved :: "Database \<Rightarrow> string \<Rightarrow> PropertyType \<Rightarrow> Property option" where
  "resolved db n t = find (\<lambda>p. pr_name p = n \<and> pr_type p = t \<and> \<not> pr_is_deleted p) (properties db)"

text \<open>An entry of the response carries the key of the row its identity resolves to.\<close>

definition entry_resolved :: "Database \<Rightarrow> PropertyEntry \<Rightarrow> bool" where
  "entry_resolved db e =
     (case resolved db (pe_name e) (pe_type e) of None \<Rightarrow> False | Some p \<Rightarrow> pr_id p = pe_id e)"

definition entry_key :: "PropertyEntry \<Rightarrow> string \<times> PropertyType" where
  "entry_key e = (pe_name e, pe_type e)"

definition reference_key :: "EventPropertyDto \<Rightarrow> string \<times> PropertyType" where
  "reference_key d = (epd_name d, epd_type d)"

section \<open>Example stores and requests\<close>

text \<open>
  A store holding the single event Login of type track with description A, and two
  candidates for it: one with the same description, one with description B.
\<close>

definition ex_login :: Event where
  "ex_login = \<lparr> ev_id = 0, ev_name = ''Login'', ev_type = TRACK, ev_description = ''A'',
                 ev_create_time = 0, ev_update_time = 0, ev_is_deleted = False,
                 ev_deleted_at = None \<rparr>"

definition ex_store_login :: Database where
  "ex_store_login = \<lparr> plans = [], events = [ex_login], properties = [],
                       tracking_plan_events = [], event_properties = [],
                       next_id = 1, available = True,
                      runner_statements = None \<rparr>"

definition ex_login_A :: CreateEventDto where
  "ex_login_A = \<lparr> ce_name = ''Login'', ce_type = TRACK, ce_description = ''A'',
                   ce_create_time = None \<rparr>"

definition ex_login_B :: CreateEventDto where
  "ex_login_B = \<lparr> ce_name = ''Login'', ce_type = TRACK, ce_description = ''B'',
                   ce_create_time = None \<rparr>"

text \<open>
  A store holding one property \<open>email\<close> of type string whose stored rule set is the
  empty object, and a candidate for it that omits the rules.
\<close>

definition ex_email :: "PropertyValidationRules option \<Rightarrow> Property" where
  "ex_email rules = \<lparr> pr_id = 0, pr_name = ''email'', pr_type = STRING,
                       pr_description = ''User email address'', pr_validation_rules = rules,
                       pr_create_time = 0, pr_update_time = 0, pr_is_deleted = False,
                       pr_deleted_at = None \<rparr>"

definition ex_store_email :: "PropertyValidationRules option \<Rightarrow> Database" where
  "ex_store_email rules = \<lparr> plans = [], events = [], properties = [ex_email rules],
                             tracking_plan_events = [], event_properties = [],
                             next_id = 1, available = True,
                      runner_statements = None \<rparr>"

definition ex_email_candidate :: "PropertyValidationRules option \<Rightarrow> CreatePropertyDto" where
  "ex_email_candidate rules = \<lparr> cp_name = ''email'', cp_type = STRING,
                                 cp_description = ''User email address'',
                                 cp_validation_rules = rules, cp_create_time = None \<rparr>"

text \<open>Two rule sets with the same keys bound to the same values, in different key order.\<close>

definition ex_rules_min_max :: PropertyValidationRules where
  "ex_rules_min_max = [(''min'', JNum 1), (''max'', JNum 2)]"

definition ex_rules_max_min :: PropertyValidationRules where
  "ex_rules_max_min = [(''max'', JNum 2), (''min'', JNum 1)]"

definition ex_store_none :: Database where
  "ex_store_none = \<lparr> plans = [], events = [], properties = [],
                      tracking_plan_events = [], event_properties = [],
                      next_id = 0, available = True,
                      runner_statements = None \<rparr>"

text \<open>A stand-in for the pattern compiler: it rejects the unterminated class \<open>[\<close> only.\<close>

definition ex_compiles :: "string \<Rightarrow> bool" where
  "ex_compiles s = (s \<noteq> ''['')"

text \<open>A rule set with a non-numeric \<open>min\<close> and a pattern that does not compile.\<close>

definition ex_rules_invalid :: PropertyValidationRules where
  "ex_rules_invalid = [(''min'', JStr ''invalid''), (''regex'', JStr ''['')]"

text \<open>
  A store with one plan (key 1) that links one event (key 2) through the plan-event
  link 4, which links one property (key 3) through the event-property link 5.
\<close>

definition ex_plan :: TrackingPlan where
  "ex_plan = \<lparr> tp_id = 1, tp_name = ''Checkout'', tp_description = ''Checkout flow'',
                tp_create_time = 0, tp_update_time = 0, tp_is_deleted = False,
                tp_deleted_at = None \<rparr>"

definition ex_event :: Event where
  "ex_event = \<lparr> ev_id = 2, ev_name = ''add_to_cart'', ev_type = TRACK,
                 ev_description = ''Item added to cart'', ev_create_time = 0,
                 ev_update_time = 0, ev_is_deleted = False, ev_deleted_at = None \<rparr>"

definition ex_property :: Property where
  "ex_property = \<lparr> pr_id = 3, pr_name = ''product_id'', pr_type = STRING,
                    pr_description = ''Product identifier'', pr_validation_rules = None,
                    pr_create_time = 0, pr_update_time = 0, pr_is_deleted = False,
                    pr_deleted_at = None \<rparr>"

definition ex_plan_event :: TrackingPlanEvent where
  "ex_plan_event = \<lparr> tpe_id = 4, tpe_tracking_plan_id = 1, tpe_event_id = 2,
                      tpe_additional_properties = False, tpe_created_at = 0,
                      tpe_is_deleted = False, tpe_deleted_at = None \<rparr>"

definition ex_event_property :: EventProperty where
  "ex_event_property = \<lparr> ep_id = 5, ep_tracking_plan_event_id = 4, ep_property_id = 3,
                          ep_required = True, ep_created_at = 0, ep_is_deleted = False,
                          ep_deleted_at = None \<rparr>"

definition ex_store_plan :: Database where
  "ex_store_plan = \<lparr> plans = [ex_plan], events = [ex_event], properties = [ex_property],
                      tracking_plan_events = [ex_plan_event],
                      event_properties = [ex_event_property],
                      next_id = 6, available = True,
                      runner_statements = None \<rparr>"

text \<open>
  Requests against the store that holds Login/track with description A. The first
  names a new event Signup with a new property email, then Login with description B.
  The second names Login, with its stored description, twice.
\<close>

definition ex_email_ref :: EventPropertyDto where
  "ex_email_ref = \<lparr> epd_name = ''email'', epd_type = STRING, epd_required = True,
                     epd_description = ''User email address'', epd_validation_rules = None \<rparr>"

definition ex_signup_event :: TrackingPlanEventDto where
  "ex_signup_event = \<lparr> tped_name = ''Signup'', tped_type = TRACK,
                      tped_description = ''User signed up'', tped_properties = [ex_email_ref],
                      tped_additionalProperties = False \<rparr>"

definition ex_login_event :: "string \<Rightarrow> TrackingPlanEventDto" where
  "ex_login_event d = \<lparr> tped_name = ''Login'', tped_type = TRACK, tped_description = d,
                       tped_properties = [], tped_additionalProperties = False \<rparr>"

definition ex_request_conflict :: CreateTrackingPlanDto where
  "ex_request_conflict = \<lparr> ctp_name = ''Onboarding'', ctp_description = ''Onboarding flow'',
                            ctp_events = [ex_signup_event, ex_login_event ''B''],
                            ctp_create_time = None \<rparr>"

definition ex_request_twice :: CreateTrackingPlanDto where
  "ex_request_twice = \<lparr> ctp_name = ''Onboarding'', ctp_description = ''Onboarding flow'',
                         ctp_events = [ex_login_event ''A'', ex_login_event ''A''],
                         ctp_create_time = None \<rparr>"

text \<open>
  An update of that plan that replaces its events by one new event \<open>purchase\<close>
  carrying the stored property; a second plan, and an update that renames the first
  plan to the second plan's name.
\<close>

definition ex_product_ref :: EventPropertyDto where
  "ex_product_ref = \<lparr> epd_name = ''product_id'', epd_type = STRING, epd_required = False,
                       epd_description = ''Product identifier'', epd_validation_rules = None \<rparr>"

definition ex_purchase_event :: TrackingPlanEventDto where
  "ex_purchase_event = \<lparr> tped_name = ''purchase'', tped_type = TRACK,
                        tped_description = ''Order placed'', tped_properties = [ex_product_ref],
                        tped_additionalProperties = True \<rparr>"

definition ex_update_purchase :: UpdateTrackingPlanDto where
  "ex_update_purchase = \<lparr> utp_name = None, utp_description = None,
                           utp_events = Some [ex_purchase_event] \<rparr>"

definition ex_plan2 :: TrackingPlan where
  "ex_plan2 = \<lparr> tp_id = 6, tp_name = ''Signup'', tp_description = ''Signup flow'',
                 tp_create_time = 0, tp_update_time = 0, tp_is_deleted = False,
                 tp_deleted_at = None \<rparr>"

definition ex_store_two_plans :: Database where
  "ex_store_two_plans = ex_store_plan\<lparr> plans := [ex_plan, ex_plan2], next_id := 7 \<rparr>"

definition ex_update_rename :: UpdateTrackingPlanDto where
  "ex_update_rename = \<lparr> utp_name = Some ''Signup'', utp_description = None, utp_events = None \<rparr>"

text \<open>A service call returned a success result.\<close>

fun returned_success :: "'a ServiceResponse outcome \<Rightarrow> bool" where
  "returned_success (Returns r) = success r"
| "returned_success (Throws e) = False"

text \<open>
  The request of the README: two events that both reference the property
  \<open>product_id\<close> of type string with the same description.
\<close>

definition ex_product_required :: EventPropertyDto where
  "ex_product_required = \<lparr> epd_name = ''product_id'', epd_type = STRING, epd_required = True,
                            epd_description = ''Product identifier'',
                            epd_validation_rules = None \<rparr>"

definition ex_request_shop :: CreateTrackingPlanDto where
  "ex_request_shop =
     \<lparr> ctp_name = ''E-commerce Flow'', ctp_description = ''Shopping cart and checkout tracking'',
       ctp_events =
         [\<lparr> tped_name = ''add_to_cart'', tped_type = TRACK,
            tped_description = ''Item added to cart'', tped_properties = [ex_product_required],
            tped_additionalProperties = False \<rparr>,
          \<lparr> tped_name = ''checkout_started'', tped_type = TRACK,
            tped_description = ''User began checkout'', tped_properties = [ex_product_required],
            tped_additionalProperties = False \<rparr>],
       ctp_create_time = None \<rparr>"

definition ex_product_entry :: PropertyEntry where
  "ex_product_entry = \<lparr> pe_id = 3, pe_name = ''product_id'', pe_type = STRING,
                         pe_description = ''Product identifier'', pe_required = True,
                         pe_validation_rules = None \<rparr>"

definition ex_response_shop :: TrackingPlanResponseDto where
  "ex_response_shop =
     \<lparr> res_id = 0, res_name = ''E-commerce Flow'',
       res_description = ''Shopping cart and checkout tracking'',
       res_create_time = 5, res_update_time = 5, res_is_deleted = False, res_deleted_at = None,
       res_events =
         [\<lparr> ee_id = 1, ee_name = ''add_to_cart'', ee_type = TRACK,
            ee_description = ''Item added to cart'', ee_additionalProperties = False,
            ee_properties = [ex_product_entry] \<rparr>,
          \<lparr> ee_id = 5, ee_name = ''checkout_started'', ee_type = TRACK,
            ee_description = ''User began checkout'', ee_additionalProperties = False,
            ee_properties = [ex_product_entry] \<rparr>] \<rparr>"

text \<open>
  The foreign keys of the link tables: every plan-event link points to a row of the
  events table and every event-property link to a row of the properties table.
\<close>

definition referential :: "Database \<Rightarrow> bool" where
  "referential db =
     (list_all (\<lambda>l. list_ex (\<lambda>e. ev_id e = tpe_event_id l) (events db)) (tracking_plan_events db)
      \<and> list_all (\<lambda>l. list_ex (\<lambda>p. pr_id p = ep_property_id l) (properties db))
            (event_properties db))"

text \<open>The store of the example, with the database not answering.\<close>

definition ex_store_down :: Database where
  "ex_store_down = ex_store_plan\<lparr> available := False \<rparr>"

text \<open>The event row that the lookup by (name, type) resolves an identity to.\<close>

definition resolved_event :: "Database \<Rightarrow> string \<Rightarrow> EventType \<Rightarrow> Event option" where
  "resolved_event db n t = find (\<lambda>e. ev_name e = n \<and> ev_type e = t \<and> \<not> ev_is_deleted e) (events db)"

text \<open>
  A plan-event link row is the link of an event definition of a request: it belongs
  to the plan, is not deleted, carries the definition's flag, and points to the row
  that the definition's identity resolves to, whose description is the definition's.
\<close>

definition event_link_for ::
    "Database \<Rightarrow> nat \<Rightarrow> TrackingPlanEvent \<Rightarrow> TrackingPlanEventDto \<Rightarrow> bool" where
  "event_link_for db plan_id l ed =
     (tpe_tracking_plan_id l = plan_id \<and> \<not> tpe_is_deleted l
      \<and> tpe_additional_properties l = tped_additionalProperties ed
      \<and> (case resolved_event db (tped_name ed) (tped_type ed) of
            None \<Rightarrow> False
          | Some e \<Rightarrow> tpe_event_id l = ev_id e \<and> ev_description e = tped_description ed))"

text \<open>The same for an event-property link row and a property reference.\<close>

definition property_link_for ::
    "Database \<Rightarrow> nat \<Rightarrow> EventProperty \<Rightarrow> EventPropertyDto \<Rightarrow> bool" where
  "property_link_for db link_id l pd =
     (ep_tracking_plan_event_id l = link_id \<and> \<not> ep_is_deleted l
      \<and> ep_required l = epd_required pd
      \<and> (case resolved db (epd_name pd) (epd_type pd) of
            None \<Rightarrow> False
          | Some p \<Rightarrow> ep_property_id l = pr_id p \<and> pr_description p = epd_description pd))"

text \<open>
  A run of event-property link rows holds the links of one event definition, in the
  order of its property references, under the given plan-event link.
\<close>

definition property_links_for ::
    "Database \<Rightarrow> EventProperty list \<Rightarrow> TrackingPlanEvent \<times> TrackingPlanEventDto \<Rightarrow> bool" where
  "property_links_for db part le =
     list_all2 (property_link_for db (tpe_id (fst le))) part (tped_properties (snd le))"

text \<open>Marking the plan-event links of a plan as deleted.\<close>

definition mark_deleted :: "nat \<Rightarrow> nat \<Rightarrow> TrackingPlanEvent \<Rightarrow> TrackingPlanEvent" where
  "mark_deleted now plan_id l =
     (if tpe_tracking_plan_id l = plan_id
      then l\<lparr> tpe_is_deleted := True, tpe_deleted_at := Some now \<rparr> else l)"

text \<open>
  An update of the plan of the example store whose event list names the event the
  plan already links.
\<close>

definition ex_cart_event :: TrackingPlanEventDto where
  "ex_cart_event = \<lparr> tped_name = ''add_to_cart'', tped_type = TRACK,
                     tped_description = ''Item added to cart'', tped_properties = [ex_product_ref],
                     tped_additionalProperties = False \<rparr>"

definition ex_update_relist :: UpdateTrackingPlanDto where
  "ex_update_relist = \<lparr> utp_name = None, utp_description = None,
                         utp_events = Some [ex_cart_event] \<rparr>"

text \<open>
  The request of the README with a rule set on the shared property: both events
  reference \<open>product_id\<close> with the same rules, written as \<open>{min: 1, max: 2}\<close>.
\<close>

definition ex_product_ruled :: EventPropertyDto where
  "ex_product_ruled = \<lparr> epd_name = ''product_id'', epd_type = STRING, epd_required = True,
                         epd_description = ''Product identifier'',
                         epd_validation_rules = Some ex_rules_min_max \<rparr>"

definition ex_request_ruled :: CreateTrackingPlanDto where
  "ex_request_ruled =
     \<lparr> ctp_name = ''E-commerce Flow'', ctp_description = ''Shopping cart and checkout tracking'',
       ctp_events =
         [\<lparr> tped_name = ''add_to_cart'', tped_type = TRACK,
            tped_description = ''Item added to cart'', tped_properties = [ex_product_ruled],
            tped_additionalProperties = False \<rparr>,
          \<lparr> tped_name = ''checkout_started'', tped_type = TRACK,
            tped_description = ''User began checkout'', tped_properties = [ex_product_ruled],
            tped_additionalProperties = False \<rparr>],
       ctp_create_time = None \<rparr>"

text \<open>
  The store of the example when the connection of the query runner is lost right
  after \<open>startTransaction\<close>, while the data source still answers.
\<close>

definition ex_store_runner_lost :: Database where
  "ex_store_runner_lost = ex_store_plan\<lparr> runner_statements := Some 0 \<rparr>"

section \<open>Lookups are stable under insertion\<close>

lemma find_append_Some:
  "find P xs = Some x \<Longrightarrow> find P (xs @ ys) = Some x"
  by (induction xs) (auto split: if_splits)

lemma find_append_None:
  "find P xs = None \<Longrightarrow> find P (xs @ ys) = find P ys"
  by (induction xs) (auto split: if_splits)

lemma find_Some_props:
  "find P xs = Some x \<Longrightarrow> x \<in> set xs \<and> P x"
  by (induction xs) (auto split: if_splits)

lemma discard_transaction_same [simp]:
  "discard_transaction db db = db"
  by (simp add: discard_transaction_def)

section \<open>Resolving an event (C5)\<close>

lemma findOrCreateEvent_found:
  assumes "findByNameAndType_Event db (ce_name data) (ce_type data) = Inr (Some stored)"
  shows "findOrCreateEvent now data db =
           (if ev_description stored = ce_description data then (Inr stored, db)
            else (Inl (ConflictError (event_conflict_message (ce_name data) (ce_type data))), db))"
  using assms by (simp add: findOrCreateEvent_def)

lemma findByNameAndType_Event_row:
  assumes "findByNameAndType_Event db n t = Inr (Some stored)"
  shows "stored \<in> set (events db) \<and> ev_name stored = n \<and> ev_type stored = t \<and> \<not> ev_is_deleted stored"
proof -
  from assms have "find (\<lambda>e. ev_name e = n \<and> ev_type e = t \<and> \<not> ev_is_deleted e) (events db) = Some stored"
    by (auto simp: findByNameAndType_Event_def run_query_def split: if_splits)
  from find_Some_props [OF this] show ?thesis by simp
qed

text \<open>
  The lookup finds a row whenever the store answers and holds a non-deleted event of
  that name and type.
\<close>

lemma findByNameAndType_Event_finds:
  assumes "available db" and "e \<in> set (events db)"
      and "ev_name e = n" and "ev_type e = t" and "\<not> ev_is_deleted e"
  shows "\<exists>stored. findByNameAndType_Event db n t = Inr (Some stored)"
proof -
  from assms(2-5)
  have "find (\<lambda>e. ev_name e = n \<and> ev_type e = t \<and> \<not> ev_is_deleted e) (events db) \<noteq> None"
    by (auto simp: find_None_iff)
  with assms(1) show ?thesis
    by (auto simp: findByNameAndType_Event_def run_query_def)
qed

text \<open>
  C5. When the lookup by (name, type) finds a stored event, that event is a non-deleted
  row of the events table with the candidate's name and type, and
  \<open>findOrCreateEvent\<close> does one of two things. If the stored description equals the
  candidate's, it returns the stored row itself and the store is unchanged. Otherwise
  it fails with a \<open>ConflictError\<close> whose message is
  \<open>Event '<name>' of type '<type>' already exists with different description\<close>,
  and the store is unchanged: nothing is inserted.
\<close>

theorem findOrCreateEvent_reuse_or_conflict:
  assumes "findByNameAndType_Event db (ce_name data) (ce_type data) = Inr (Some stored)"
  shows "stored \<in> set (events db) \<and> ev_name stored = ce_name data
           \<and> ev_type stored = ce_type data \<and> \<not> ev_is_deleted stored
           \<and> findOrCreateEvent now data db =
               (if ev_description stored = ce_description data then (Inr stored, db)
                else (Inl (ConflictError
                        (''Event '' @ sq @ ce_name data @ sq @ '' of type '' @ sq
                           @ EventType_value (ce_type data) @ sq
                           @ '' already exists with different description'')), db))"
  using findOrCreateEvent_found [OF assms] findByNameAndType_Event_row [OF assms]
  by (simp add: event_conflict_message_def)

theorem findOrCreateEvent_reuse_or_conflict_witness:
  "findByNameAndType_Event ex_store_login (ce_name ex_login_B) (ce_type ex_login_B)
      = Inr (Some ex_login)
   \<and> findOrCreateEvent 5 ex_login_A ex_store_login = (Inr ex_login, ex_store_login)
   \<and> findOrCreateEvent 5 ex_login_B ex_store_login =
       (Inl (ConflictError (''Event '' @ sq @ ''Login'' @ sq @ '' of type '' @ sq @ ''track'' @ sq
                              @ '' already exists with different description'')), ex_store_login)"
proof -
  have h: "findByNameAndType_Event ex_store_login (ce_name ex_login_B) (ce_type ex_login_B)
             = Inr (Some ex_login)"
    by (simp add: findByNameAndType_Event_def run_query_def ex_store_login_def ex_login_B_def
          ex_login_def)
  have h': "findByNameAndType_Event ex_store_login (ce_name ex_login_A) (ce_type ex_login_A)
             = Inr (Some ex_login)"
    using h by (simp add: ex_login_A_def ex_login_B_def)
  show ?thesis
    using h findOrCreateEvent_reuse_or_conflict [OF h, of 5]
      findOrCreateEvent_reuse_or_conflict [OF h', of 5]
    by (simp add: ex_login_A_def ex_login_B_def ex_login_def)
qed

section \<open>Resolving a property: the comparison (C3, C4)\<close>

lemma findOrCreateProperty_found:
  assumes "findByNameAndType_Property db (cp_name data) (cp_type data) = Inr (Some stored)"
  shows "findOrCreateProperty compiles now data db =
           (if pr_description stored \<noteq> cp_description data
            then (Inl (ConflictError
                    (property_conflict_message (cp_name data) (cp_type data) ''description'')), db)
            else if rules_differ (pr_validation_rules stored) (cp_validation_rules data)
            then (Inl (ConflictError
                    (property_conflict_message (cp_name data) (cp_type data) ''validation rules'')), db)
            else (Inr stored, db))"
  using assms by (simp add: findOrCreateProperty_def)

lemma ex_store_email_lookup:
  "findByNameAndType_Property (ex_store_email rules) ''email'' STRING = Inr (Some (ex_email rules))"
  by (simp add: findByNameAndType_Property_def run_query_def ex_store_email_def ex_email_def)

text \<open>
  The order in which the column keeps the keys \<open>min\<close> and \<open>max\<close>.
\<close>

lemma jsonb_min_max:
  "jsonb_object ex_rules_min_max = ex_rules_max_min"
  "jsonb_object ex_rules_max_min = ex_rules_max_min"
  "jsonb_object [] = []"
  "jsonb_object [kv] = [kv]"
  by (simp_all add: jsonb_object_def jsonb_key_less_def ex_rules_min_max_def ex_rules_max_min_def)

text \<open>
  The stores of the examples below arise from the empty store by \<open>createProperty\<close>.
  An empty rule set passes validation and is stored as it is. The rule set
  \<open>{min: 1, max: 2}\<close> passes validation, is returned to the caller as it was sent,
  and is stored, and read back from then on, as \<open>{max: 2, min: 1}\<close>.
\<close>

lemma example_stores_arise:
  "createProperty ex_compiles 0 (ex_email_candidate (Some [])) ex_store_none
     = (Returns (Success (ex_email (Some []))), ex_store_email (Some []))"
  "createProperty ex_compiles 0 (ex_email_candidate (Some ex_rules_min_max)) ex_store_none
     = (Returns (Success (ex_email (Some ex_rules_min_max))), ex_store_email (Some ex_rules_max_min))"
  by (simp_all add: createProperty_def createProperty_try_def catch_as_def run_query_def
        findByNameAndType_Property_def create_Property_def or_now_def jsonb_column_def
        jsonb_min_max ex_email_candidate_def ex_store_none_def ex_email_def ex_store_email_def
        validate_if_provided_def validatePropertyRules_def validate_regex_def present_and_def
        field_def Let_def)
    (simp_all add: ex_rules_min_max_def)

text \<open>
  C3, as stated, fails. The stored property \<open>email\<close> has the empty rule set
  \<open>{}\<close>, the candidate has the same name, type and description and omits its rules:
  the empty object is truthy, so it is compared as \<open>{}\<close> against \<open>null\<close>, and the
  resolution fails with a \<open>ConflictError\<close> about different validation rules.
\<close>

theorem findOrCreateProperty_empty_rules_conflict:
  "findOrCreateProperty ex_compiles 5 (ex_email_candidate None) (ex_store_email (Some []))
     = (Inl (ConflictError (''Property '' @ sq @ ''email'' @ sq @ '' of type '' @ sq @ ''string'' @ sq
                              @ '' already exists with different validation rules'')),
        ex_store_email (Some []))"
  by (simp add: findOrCreateProperty_def findByNameAndType_Property_def run_query_def
        ex_store_email_def ex_email_def ex_email_candidate_def rules_differ_def or_null_def
        property_conflict_message_def)

text \<open>
  C3, amended. When the lookup finds a stored property whose description equals the
  candidate's and whose rule set is \<open>null\<close>, and the candidate omits its rules,
  \<open>findOrCreateProperty\<close> returns the stored row and leaves the store unchanged: no
  conflict, no insertion.
\<close>

theorem findOrCreateProperty_null_rules_reuse:
  assumes "findByNameAndType_Property db (cp_name data) (cp_type data) = Inr (Some stored)"
      and "pr_description stored = cp_description data"
      and "pr_validation_rules stored = None"
      and "cp_validation_rules data = None"
  shows "findOrCreateProperty compiles now data db = (Inr stored, db)"
  using assms(2-4) findOrCreateProperty_found [OF assms(1)]
  by (simp add: rules_differ_def or_null_def)

theorem findOrCreateProperty_null_rules_reuse_witness:
  "findByNameAndType_Property (ex_store_email None) (cp_name (ex_email_candidate None))
       (cp_type (ex_email_candidate None)) = Inr (Some (ex_email None))
   \<and> pr_description (ex_email None) = cp_description (ex_email_candidate None)
   \<and> pr_validation_rules (ex_email None) = None
   \<and> cp_validation_rules (ex_email_candidate None) = None
   \<and> findOrCreateProperty ex_compiles 5 (ex_email_candidate None) (ex_store_email None)
       = (Inr (ex_email None), ex_store_email None)"
proof -
  have h1: "findByNameAndType_Property (ex_store_email None) (cp_name (ex_email_candidate None))
              (cp_type (ex_email_candidate None)) = Inr (Some (ex_email None))"
    using ex_store_email_lookup [of None] by (simp add: ex_email_candidate_def)
  have h2: "pr_description (ex_email None) = cp_description (ex_email_candidate None)"
    by (simp add: ex_email_def ex_email_candidate_def)
  have h3: "pr_validation_rules (ex_email None) = None"
    by (simp add: ex_email_def)
  have h4: "cp_validation_rules (ex_email_candidate None) = None"
    by (simp add: ex_email_candidate_def)
  show ?thesis
    using h1 h2 h3 h4 findOrCreateProperty_null_rules_reuse [OF h1 h2 h3 h4, of ex_compiles 5]
    by simp
qed

text \<open>
  What the reordering of the column does not break: a candidate whose rule set is
  written in the column's own key order is compared equal to the stored row.
\<close>

lemma findOrCreateProperty_store_order_reused:
  "findOrCreateProperty ex_compiles 5 (ex_email_candidate (Some ex_rules_max_min))
       (ex_store_email (Some ex_rules_max_min))
     = (Inr (ex_email (Some ex_rules_max_min)), ex_store_email (Some ex_rules_max_min))"
  using findOrCreateProperty_found [of "ex_store_email (Some ex_rules_max_min)"
      "ex_email_candidate (Some ex_rules_max_min)" "ex_email (Some ex_rules_max_min)" ex_compiles 5]
    ex_store_email_lookup [of "Some ex_rules_max_min"]
  by (simp add: ex_email_candidate_def ex_email_def rules_differ_def)

text \<open>
  C4 at a concrete pair of rule sets. The property \<open>email\<close> is created on the
  empty store with the rules \<open>{min: 1, max: 2}\<close>; the column keeps them as
  \<open>{max: 2, min: 1}\<close>. The stored rules and the rules \<open>{min: 1, max: 2}\<close> of a
  candidate bind the same keys to the same values, each key once. Their
  serialisations differ, and \<open>findOrCreateProperty\<close>, called with the very
  definition the property was created from, fails with a \<open>ConflictError\<close> about
  different validation rules.
\<close>

theorem findOrCreateProperty_key_order_conflict:
  "snd (createProperty ex_compiles 0 (ex_email_candidate (Some ex_rules_min_max)) ex_store_none)
     = ex_store_email (Some ex_rules_max_min)
   \<and> set ex_rules_max_min = set ex_rules_min_max
   \<and> distinct (map fst ex_rules_max_min) \<and> distinct (map fst ex_rules_min_max)
   \<and> findOrCreateProperty ex_compiles 5 (ex_email_candidate (Some ex_rules_min_max))
         (ex_store_email (Some ex_rules_max_min))
       = (Inl (ConflictError (''Property '' @ sq @ ''email'' @ sq @ '' of type '' @ sq @ ''string''
                                @ sq @ '' already exists with different validation rules'')),
          ex_store_email (Some ex_rules_max_min))"
proof -
  have "set ex_rules_max_min = set ex_rules_min_max"
    by (auto simp: ex_rules_min_max_def ex_rules_max_min_def)
  moreover have "distinct (map fst ex_rules_max_min) \<and> distinct (map fst ex_rules_min_max)"
    by (simp add: ex_rules_min_max_def ex_rules_max_min_def)
  moreover have "rules_differ (Some ex_rules_max_min) (Some ex_rules_min_max)"
    by (simp add: rules_differ_def or_null_def ex_rules_min_max_def ex_rules_max_min_def
          stringify_member_def quote_string_def dq_def quote_char_def)
  ultimately show ?thesis
    using findOrCreateProperty_found [of "ex_store_email (Some ex_rules_max_min)"
        "ex_email_candidate (Some ex_rules_min_max)" "ex_email (Some ex_rules_max_min)" ex_compiles 5]
      ex_store_email_lookup [of "Some ex_rules_max_min"]
      example_stores_arise(2)
    by (simp add: ex_email_candidate_def ex_email_def property_conflict_message_def)
qed

section \<open>Validation of a new property (C7)\<close>

lemma present_and_iff:
  "present_and rules k P \<longleftrightarrow> (\<exists>v. field rules k = Some v \<and> truthy v \<and> P v)"
  by (auto simp: present_and_def split: option.splits)

lemma validate_min_max:
  assumes "t = STRING \<or> t = NUMBER" and "k = ''min'' \<or> k = ''max''"
      and "field rules k = Some v" and "truthy v" and "typeof v \<noteq> ''number''"
  shows "\<exists>m. validatePropertyRules compiles rules t = Inl (ValidationError m)"
  using assms by (auto simp: validatePropertyRules_def present_and_iff)

lemma validate_regex_bad:
  assumes "field rules ''regex'' = Some v" and "truthy v" and "\<not> compiles (ToString v)"
  shows "\<exists>m. validatePropertyRules compiles rules t = Inl (ValidationError m)"
  using assms
  by (cases t) (auto simp: validatePropertyRules_def validate_regex_def present_and_iff)

lemma falsy_ToString:
  "\<not> truthy v \<Longrightarrow> ToString v \<in> {[], ''0'', ''null'', ''false''}"
proof -
  have "char_of (48::nat) = CHR ''0''" by code_simp
  then show "\<not> truthy v \<Longrightarrow> ToString v \<in> {[], ''0'', ''null'', ''false''}"
    by (cases v) (auto simp: show_int_def show_nat.simps digit_char_def)
qed

lemma findOrCreateProperty_new_invalid:
  assumes "findByNameAndType_Property db (cp_name data) (cp_type data) = Inr None"
      and "cp_validation_rules data = Some rules"
      and "validatePropertyRules compiles rules (cp_type data) = Inl e"
  shows "findOrCreateProperty compiles now data db = (Inl e, db)"
  using assms by (simp add: findOrCreateProperty_def validate_if_provided_def)

text \<open>
  C7, as stated, fails. A new property of type string whose rule set has \<open>min\<close> bound
  to the empty string: the value is present and is not a number, but it is falsy, so
  the guard \<open>rules.min && ...\<close> skips the check and the property is inserted.
\<close>

theorem findOrCreateProperty_falsy_min_inserted:
  "field [(''min'', JStr [])] ''min'' = Some (JStr [])
   \<and> typeof (JStr []) \<noteq> ''number''
   \<and> findOrCreateProperty ex_compiles 5 (ex_email_candidate (Some [(''min'', JStr [])])) ex_store_none
       = (Inr ((ex_email (Some [(''min'', JStr [])]))\<lparr> pr_create_time := 5, pr_update_time := 5 \<rparr>),
          ex_store_none\<lparr> properties :=
                           [(ex_email (Some [(''min'', JStr [])]))
                              \<lparr> pr_create_time := 5, pr_update_time := 5 \<rparr>],
                         next_id := 1 \<rparr>)"
  by (simp add: findOrCreateProperty_def findByNameAndType_Property_def run_query_def
        ex_store_none_def ex_email_def ex_email_candidate_def validate_if_provided_def
        validatePropertyRules_def present_and_def field_def validate_regex_def
        create_Property_def or_now_def jsonb_column_def jsonb_min_max Let_def)

text \<open>
  C7, amended. Let a property be new (the lookup finds nothing) and carry a rule set,
  and let the runtime compile the patterns of the falsy values (the empty pattern,
  \<open>0\<close>, \<open>null\<close>, \<open>false\<close>). If the type is string or number and \<open>min\<close> or
  \<open>max\<close> is bound to a truthy value that is not a number, \<open>findOrCreateProperty\<close>
  fails with a \<open>ValidationError\<close> and the store is unchanged. If, for any type,
  \<open>regex\<close> is bound to a value whose pattern does not compile, it fails with a
  \<open>ValidationError\<close> and the store is unchanged.
\<close>

theorem findOrCreateProperty_validation:
  assumes "findByNameAndType_Property db (cp_name data) (cp_type data) = Inr None"
      and "cp_validation_rules data = Some rules"
      and "compiles [] \<and> compiles ''0'' \<and> compiles ''null'' \<and> compiles ''false''"
  shows "((cp_type data = STRING \<or> cp_type data = NUMBER) \<and> (k = ''min'' \<or> k = ''max'')
            \<and> field rules k = Some v \<and> truthy v \<and> typeof v \<noteq> ''number''
          \<longrightarrow> (\<exists>m. findOrCreateProperty compiles now data db = (Inl (ValidationError m), db)))
       \<and> (field rules ''regex'' = Some r \<and> \<not> compiles (ToString r)
          \<longrightarrow> (\<exists>m. findOrCreateProperty compiles now data db = (Inl (ValidationError m), db)))"
proof (intro conjI impI)
  assume "(cp_type data = STRING \<or> cp_type data = NUMBER) \<and> (k = ''min'' \<or> k = ''max'')
            \<and> field rules k = Some v \<and> truthy v \<and> typeof v \<noteq> ''number''"
  then obtain m where "validatePropertyRules compiles rules (cp_type data) = Inl (ValidationError m)"
    using validate_min_max [of "cp_type data" k rules v compiles] by blast
  from findOrCreateProperty_new_invalid [OF assms(1,2) this]
  show "\<exists>m. findOrCreateProperty compiles now data db = (Inl (ValidationError m), db)"
    by blast
next
  assume a: "field rules ''regex'' = Some r \<and> \<not> compiles (ToString r)"
  have "truthy r"
  proof (rule ccontr)
    assume "\<not> truthy r"
    from falsy_ToString [OF this] assms(3) a show False by auto
  qed
  with a obtain m where "validatePropertyRules compiles rules (cp_type data) = Inl (ValidationError m)"
    using validate_regex_bad [of rules r compiles "cp_type data"] by blast
  from findOrCreateProperty_new_invalid [OF assms(1,2) this]
  show "\<exists>m. findOrCreateProperty compiles now data db = (Inl (ValidationError m), db)"
    by blast
qed

theorem findOrCreateProperty_validation_witness:
  "findByNameAndType_Property ex_store_none (cp_name (ex_email_candidate (Some ex_rules_invalid)))
       (cp_type (ex_email_candidate (Some ex_rules_invalid))) = Inr None
   \<and> cp_validation_rules (ex_email_candidate (Some ex_rules_invalid)) = Some ex_rules_invalid
   \<and> (ex_compiles [] \<and> ex_compiles ''0'' \<and> ex_compiles ''null'' \<and> ex_compiles ''false'')
   \<and> cp_type (ex_email_candidate (Some ex_rules_invalid)) = STRING
   \<and> field ex_rules_invalid ''min'' = Some (JStr ''invalid'')
   \<and> truthy (JStr ''invalid'') \<and> typeof (JStr ''invalid'') \<noteq> ''number''
   \<and> field ex_rules_invalid ''regex'' = Some (JStr ''['')
   \<and> \<not> ex_compiles (ToString (JStr ''[''))
   \<and> findOrCreateProperty ex_compiles 5 (ex_email_candidate (Some ex_rules_invalid)) ex_store_none
       = (Inl (ValidationError ''String property min length must be a number''), ex_store_none)"
proof -
  have h1: "findByNameAndType_Property ex_store_none
              (cp_name (ex_email_candidate (Some ex_rules_invalid)))
              (cp_type (ex_email_candidate (Some ex_rules_invalid))) = Inr None"
    by (simp add: findByNameAndType_Property_def run_query_def ex_store_none_def)
  have h2: "cp_validation_rules (ex_email_candidate (Some ex_rules_invalid)) = Some ex_rules_invalid"
    by (simp add: ex_email_candidate_def)
  have h3: "ex_compiles [] \<and> ex_compiles ''0'' \<and> ex_compiles ''null'' \<and> ex_compiles ''false''"
    by (simp add: ex_compiles_def)
  have v: "validatePropertyRules ex_compiles ex_rules_invalid STRING
             = Inl (ValidationError ''String property min length must be a number'')"
    by (simp add: validatePropertyRules_def present_and_def field_def ex_rules_invalid_def)
  show ?thesis
    using h1 h2 h3 v
      findOrCreateProperty_validation [OF h1 h2 h3, of "''min''" "JStr ''invalid''" 5 "JStr ''[''"]
    by (simp add: findOrCreateProperty_def validate_if_provided_def ex_email_candidate_def
          field_def ex_rules_invalid_def ex_compiles_def)
qed

section \<open>Deleting a plan (C10)\<close>

lemma findById_TrackingPlan_available:
  "findById_TrackingPlan db i = Inr r \<Longrightarrow> available db"
  by (simp add: findById_TrackingPlan_def run_query_def split: if_splits)

text \<open>
  C10. \<open>deleteTrackingPlan\<close> on a plan that \<open>findById\<close> finds succeeds, and the
  store it leaves differs from the old one in the plans table only: the row with the
  plan's key has \<open>is_deleted\<close> set, \<open>deleted_at\<close> set to the current time (and the
  \<open>update_time\<close> that the ORM maintains refreshed); every other plan row, and every
  row of the events, properties, plan-event link and event-property link tables, is as
  before.
\<close>

theorem deleteTrackingPlan_only_plan_row:
  assumes "findById_TrackingPlan db i = Inr (Some plan)"
  shows "fst (deleteTrackingPlan now i db) = Returns (Success ())
       \<and> plans (snd (deleteTrackingPlan now i db))
           = map (\<lambda>p. if tp_id p = i
                       then p\<lparr> tp_is_deleted := True, tp_deleted_at := Some now, tp_update_time := now \<rparr>
                       else p) (plans db)
       \<and> events (snd (deleteTrackingPlan now i db)) = events db
       \<and> properties (snd (deleteTrackingPlan now i db)) = properties db
       \<and> tracking_plan_events (snd (deleteTrackingPlan now i db)) = tracking_plan_events db
       \<and> event_properties (snd (deleteTrackingPlan now i db)) = event_properties db"
  using assms findById_TrackingPlan_available [OF assms]
  by (simp add: deleteTrackingPlan_def softDelete_TrackingPlan_def)

theorem deleteTrackingPlan_only_plan_row_witness:
  "findById_TrackingPlan ex_store_plan 1 = Inr (Some ex_plan)
   \<and> fst (deleteTrackingPlan 9 1 ex_store_plan) = Returns (Success ())
   \<and> plans (snd (deleteTrackingPlan 9 1 ex_store_plan))
       = [ex_plan\<lparr> tp_is_deleted := True, tp_deleted_at := Some 9, tp_update_time := 9 \<rparr>]
   \<and> events (snd (deleteTrackingPlan 9 1 ex_store_plan)) = [ex_event]
   \<and> properties (snd (deleteTrackingPlan 9 1 ex_store_plan)) = [ex_property]
   \<and> tracking_plan_events (snd (deleteTrackingPlan 9 1 ex_store_plan)) = [ex_plan_event]
   \<and> event_properties (snd (deleteTrackingPlan 9 1 ex_store_plan)) = [ex_event_property]"
proof -
  have h: "findById_TrackingPlan ex_store_plan 1 = Inr (Some ex_plan)"
    by (simp add: findById_TrackingPlan_def run_query_def ex_store_plan_def ex_plan_def)
  show ?thesis
    using h deleteTrackingPlan_only_plan_row [OF h, of 9]
    by (simp add: ex_store_plan_def ex_plan_def)
qed

section \<open>Failure of plan creation (C1, C8)\<close>

lemmas example_defs =
  ex_store_login_def ex_login_def ex_request_conflict_def ex_request_twice_def
  ex_signup_event_def ex_login_event_def ex_email_ref_def ex_compiles_def

lemmas repository_defs =
  run_query_def findByName_def findByNameAndType_Event_def findByNameAndType_Property_def
  create_TrackingPlan_def create_Event_def create_Property_def save_TrackingPlanEvent_def
  save_EventProperty_def or_now_def

lemmas create_defs =
  createTrackingPlan_def createTrackingPlan_try_def findOrCreateEvent_def
  findOrCreateProperty_def validate_if_provided_def rollbackTransaction_def
  commitTransaction_def then_commit_def catch_rollback_def discard_transaction_def
  runner_up_def runner_used_def jsonb_column_def

text \<open>
  What the rollback does restore: after a failed \<open>createTrackingPlan\<close> the two
  link tables are as they were before the call.
\<close>

lemma createTrackingPlan_failure_restores_links:
  assumes "fst (createTrackingPlan compiles now data db) = Returns (Failure c m)"
  shows "tracking_plan_events (snd (createTrackingPlan compiles now data db)) = tracking_plan_events db
       \<and> event_properties (snd (createTrackingPlan compiles now data db)) = event_properties db"
  using assms
  by (auto simp: createTrackingPlan_def catch_rollback_def rollbackTransaction_def
        discard_transaction_def split: if_splits prod.splits sum.splits)

text \<open>
  C1 at a concrete request. The store holds the event Login/track with description A.
  The request names a new event Signup with a new property email, and then
  Login/track with description B. The operation fails with the conflict on Login. The
  two link tables are empty again, but the plan row, the Signup event row and the
  email property row written before the conflict are still in the store: the state
  after the failure is not the state before the call.
\<close>

theorem createTrackingPlan_conflict_leaves_rows:
  "fst (createTrackingPlan ex_compiles 5 ex_request_conflict ex_store_login)
     = Returns (Failure ''CREATE_TRACKING_PLAN_ERROR''
         (''Event '' @ sq @ ''Login'' @ sq @ '' of type '' @ sq @ ''track'' @ sq
            @ '' already exists with different description''))
   \<and> tables ex_store_login = ([], [ex_login], [], [], [])
   \<and> tables (snd (createTrackingPlan ex_compiles 5 ex_request_conflict ex_store_login))
       = ([\<lparr> tp_id = 1, tp_name = ''Onboarding'', tp_description = ''Onboarding flow'',
              tp_create_time = 5, tp_update_time = 5, tp_is_deleted = False,
              tp_deleted_at = None \<rparr>],
          [ex_login,
           \<lparr> ev_id = 2, ev_name = ''Signup'', ev_type = TRACK,
             ev_description = ''User signed up'', ev_create_time = 5, ev_update_time = 5,
             ev_is_deleted = False, ev_deleted_at = None \<rparr>],
          [\<lparr> pr_id = 4, pr_name = ''email'', pr_type = STRING,
              pr_description = ''User email address'', pr_validation_rules = None,
              pr_create_time = 5, pr_update_time = 5, pr_is_deleted = False,
              pr_deleted_at = None \<rparr>],
          [], [])"
  by (simp add: example_defs repository_defs create_defs tables_def event_conflict_message_def
        Let_def)

text \<open>
  C8 at a concrete request. The request names the stored event Login/track twice. The
  second plan-event link repeats the pair (plan, event) of the first, so its insert
  fails on the unique index of the link table. The service returns the failure under
  the code \<open>CREATE_TRACKING_PLAN_ERROR\<close>, which it uses for every failure, and the
  HTTP boundary answers with status 400 and code \<open>AppError\<close>: the failure is not
  classified as a conflict (409).
\<close>

theorem createTrackingPlan_duplicate_key_not_conflict:
  "fst (createTrackingPlan_try ex_compiles 5 ex_request_twice ex_store_login)
     = Inl (QueryFailedError ''duplicate key value violates unique constraint'')
   \<and> fst (createTrackingPlan ex_compiles 5 ex_request_twice ex_store_login)
       = Returns (Failure ''CREATE_TRACKING_PLAN_ERROR''
           ''duplicate key value violates unique constraint'')
   \<and> fst (post_tracking_plan ex_compiles 5 ex_request_twice ex_store_login)
       = JsonError 400 ''AppError'' ''duplicate key value violates unique constraint''
   \<and> http_status (fst (post_tracking_plan ex_compiles 5 ex_request_twice ex_store_login)) \<noteq> 409"
  by (simp add: example_defs repository_defs create_defs duplicate_key_def post_tracking_plan_def
        errorHandler_def Let_def)

text \<open>
  The same holds for every failure inside the \<open>try\<close> block: whatever the error, the
  HTTP boundary answers 400 with code \<open>AppError\<close>. The branch of \<open>errorHandler\<close>
  that maps a duplicate-key message to 409 is never reached from plan creation.
\<close>

lemma post_tracking_plan_failure_status:
  assumes "fst (createTrackingPlan compiles now body db) = Returns (Failure c m)"
  shows "fst (post_tracking_plan compiles now body db) = JsonError 400 ''AppError'' m"
  using assms
  by (auto simp: post_tracking_plan_def errorHandler_def split: prod.splits outcome.splits
        ServiceResponse.splits)

section \<open>What each step may change\<close>

lemma runner_None [simp]:
  "runner_statements db = None \<Longrightarrow> runner_up db"
  "runner_statements db = None \<Longrightarrow> runner_used db = db"
  by (simp_all add: runner_up_def runner_used_def)

lemma findOrCreateEvent_frame:
  assumes "findOrCreateEvent now d db = (r, db')"
  shows "plans db' = plans db \<and> properties db' = properties db
       \<and> tracking_plan_events db' = tracking_plan_events db
       \<and> event_properties db' = event_properties db \<and> available db' = available db
       \<and> runner_statements db' = runner_statements db
       \<and> prefix (events db) (events db') \<and> next_id db \<le> next_id db'"
  using assms
  by (auto simp: findOrCreateEvent_def create_Event_def Let_def split: sum.splits option.splits if_splits)

lemma findOrCreateProperty_frame:
  assumes "findOrCreateProperty compiles now d db = (r, db')"
  shows "plans db' = plans db \<and> events db' = events db
       \<and> tracking_plan_events db' = tracking_plan_events db
       \<and> event_properties db' = event_properties db \<and> available db' = available db
       \<and> runner_statements db' = runner_statements db
       \<and> prefix (properties db) (properties db') \<and> next_id db \<le> next_id db'"
  using assms
  by (auto simp: findOrCreateProperty_def create_Property_def Let_def split: sum.splits option.splits if_splits)

lemma save_EventProperty_frame:
  assumes "save_EventProperty now l p req db = (r, db')"
  shows "plans db' = plans db \<and> events db' = events db \<and> properties db' = properties db
       \<and> tracking_plan_events db' = tracking_plan_events db \<and> available db' = available db
       \<and> (runner_statements db = None \<longrightarrow> runner_statements db' = None)
       \<and> prefix (event_properties db) (event_properties db') \<and> next_id db \<le> next_id db'"
  using assms
  by (auto simp: save_EventProperty_def runner_used_def Let_def split: if_splits)

lemma save_EventProperty_row:
  assumes "save_EventProperty now link pid req db = (Inr l, db')"
  shows "event_properties db' = event_properties db @ [l]
       \<and> \<not> ep_is_deleted l \<and> ep_tracking_plan_event_id l = link \<and> ep_property_id l = pid
       \<and> ep_required l = req"
  using assms
  by (auto simp: save_EventProperty_def runner_used_def Let_def split: if_splits)

lemma save_TrackingPlanEvent_frame:
  assumes "save_TrackingPlanEvent now pl ev ad db = (r, db')"
  shows "plans db' = plans db \<and> events db' = events db \<and> properties db' = properties db
       \<and> event_properties db' = event_properties db \<and> available db' = available db
       \<and> (runner_statements db = None \<longrightarrow> runner_statements db' = None)
       \<and> prefix (tracking_plan_events db) (tracking_plan_events db') \<and> next_id db \<le> next_id db'"
  using assms
  by (auto simp: save_TrackingPlanEvent_def runner_used_def Let_def split: if_splits)

lemma save_TrackingPlanEvent_row:
  assumes "save_TrackingPlanEvent now pl ev ad db = (Inr l, db')"
  shows "tracking_plan_events db' = tracking_plan_events db @ [l]
       \<and> \<not> tpe_is_deleted l \<and> tpe_tracking_plan_id l = pl \<and> tpe_event_id l = ev
       \<and> tpe_additional_properties l = ad
       \<and> tpe_id l = next_id db \<and> next_id db' = Suc (next_id db)"
  using assms
  by (auto simp: save_TrackingPlanEvent_def runner_used_def Let_def split: if_splits)

lemma updateProperties_frame:
  "updateProperties compiles now link pds db = (r, db') \<Longrightarrow>
     plans db' = plans db \<and> events db' = events db
       \<and> tracking_plan_events db' = tracking_plan_events db \<and> available db' = available db
       \<and> (runner_statements db = None \<longrightarrow> runner_statements db' = None)
       \<and> prefix (event_properties db) (event_properties db')
       \<and> prefix (properties db) (properties db') \<and> next_id db \<le> next_id db'"
proof (induction pds arbitrary: db r db')
  case Nil
  then show ?case by simp
next
  case (Cons pd pds)
  let ?d = "\<lparr> cp_name = epd_name pd, cp_type = epd_type pd, cp_description = epd_description pd,
               cp_validation_rules = epd_validation_rules pd, cp_create_time = None \<rparr>"
  obtain r1 db1 where f: "findOrCreateProperty compiles now ?d db = (r1, db1)"
    by (cases "findOrCreateProperty compiles now ?d db")
  note F = findOrCreateProperty_frame [OF f]
  show ?case
  proof (cases r1)
    case (Inl e)
    with Cons.prems f F show ?thesis by simp
  next
    case (Inr p)
    obtain r2 db2 where s: "save_EventProperty now link (pr_id p) (epd_required pd) db1 = (r2, db2)"
      by (cases "save_EventProperty now link (pr_id p) (epd_required pd) db1")
    note S = save_EventProperty_frame [OF s]
    show ?thesis
    proof (cases r2)
      case (Inl e)
      with Cons.prems f Inr s F S show ?thesis by simp
    next
      case (Inr ep)
      with Cons.prems f \<open>r1 = Inr p\<close> s
      have "updateProperties compiles now link pds db2 = (r, db')" by simp
      from Cons.IH [OF this] F S show ?thesis
        by (auto intro: prefix_order.trans)
    qed
  qed
qed

lemma updateEvents_frame:
  "updateEvents compiles now i evs db = (r, db') \<Longrightarrow>
     plans db' = plans db \<and> available db' = available db
       \<and> (runner_statements db = None \<longrightarrow> runner_statements db' = None)
       \<and> prefix (tracking_plan_events db) (tracking_plan_events db')
       \<and> prefix (event_properties db) (event_properties db')
       \<and> prefix (events db) (events db')
       \<and> prefix (properties db) (properties db') \<and> next_id db \<le> next_id db'"
proof (induction evs arbitrary: db r db')
  case Nil
  then show ?case by simp
next
  case (Cons ed evs)
  let ?d = "\<lparr> ce_name = tped_name ed, ce_type = tped_type ed,
               ce_description = tped_description ed, ce_create_time = None \<rparr>"
  obtain r1 db1 where f: "findOrCreateEvent now ?d db = (r1, db1)"
    by (cases "findOrCreateEvent now ?d db")
  note F = findOrCreateEvent_frame [OF f]
  show ?case
  proof (cases r1)
    case (Inl e)
    with Cons.prems f F show ?thesis by simp
  next
    case (Inr event)
    obtain r2 db2 where s: "save_TrackingPlanEvent now i (ev_id event) (tped_additionalProperties ed) db1 = (r2, db2)"
      by (cases "save_TrackingPlanEvent now i (ev_id event) (tped_additionalProperties ed) db1")
    note S = save_TrackingPlanEvent_frame [OF s]
    show ?thesis
    proof (cases r2)
      case (Inl e)
      with Cons.prems f Inr s F S show ?thesis by simp
    next
      case (Inr l)
      obtain r3 db3 where p: "updateProperties compiles now (tpe_id l) (tped_properties ed) db2 = (r3, db3)"
        by (cases "updateProperties compiles now (tpe_id l) (tped_properties ed) db2")
      note P = updateProperties_frame [OF p]
      show ?thesis
      proof (cases r3)
        case (Inl e)
        with Cons.prems f \<open>r1 = Inr event\<close> s Inr p F S P show ?thesis
          by (auto intro: prefix_order.trans)
      next
        case (Inr u3)
        with Cons.prems f \<open>r1 = Inr event\<close> s \<open>r2 = Inr l\<close> p
        have "updateEvents compiles now i evs db3 = (r, db')" by simp
        from Cons.IH [OF this] F S P show ?thesis
          by (auto intro: prefix_order.trans)
      qed
    qed
  qed
qed

section \<open>Updating a plan (C6)\<close>

lemma resolved_event_prefix:
  "resolved_event db n t = Some e \<Longrightarrow> prefix (events db) (events db')
     \<Longrightarrow> resolved_event db' n t = Some e"
  by (auto simp: resolved_event_def prefix_def find_append_Some)

lemma resolved_prefix:
  "resolved db n t = Some p \<Longrightarrow> prefix (properties db) (properties db')
     \<Longrightarrow> resolved db' n t = Some p"
  by (auto simp: resolved_def prefix_def find_append_Some)

lemma findOrCreateEvent_resolved:
  assumes "findOrCreateEvent now d db = (Inr e, db')"
  shows "resolved_event db' (ce_name d) (ce_type d) = Some e
       \<and> ev_description e = ce_description d"
  using assms
  by (auto simp: findOrCreateEvent_def create_Event_def findByNameAndType_Event_def run_query_def
        resolved_event_def find_append_None Let_def
        split: sum.splits option.splits if_splits)

lemma findOrCreateProperty_resolved:
  assumes "findOrCreateProperty compiles now d db = (Inr p, db')"
  shows "\<exists>row. resolved db' (cp_name d) (cp_type d) = Some row
           \<and> pr_id row = pr_id p \<and> pr_name row = pr_name p \<and> pr_type row = pr_type p
           \<and> pr_name p = cp_name d \<and> pr_type p = cp_type d
           \<and> pr_description row = cp_description d"
  using assms
  by (auto simp: findOrCreateProperty_def create_Property_def findByNameAndType_Property_def
        run_query_def resolved_def find_append_None Let_def
        split: sum.splits option.splits if_splits dest: find_Some_props)

lemma property_link_for_prefix:
  "property_link_for db link l pd \<Longrightarrow> prefix (properties db) (properties db')
     \<Longrightarrow> property_link_for db' link l pd"
  by (auto simp: property_link_for_def split: option.splits dest: resolved_prefix)

lemma event_link_for_prefix:
  "event_link_for db i l ed \<Longrightarrow> prefix (events db) (events db')
     \<Longrightarrow> event_link_for db' i l ed"
  by (auto simp: event_link_for_def split: option.splits dest: resolved_event_prefix)

lemma property_links_for_prefix:
  "property_links_for db part le \<Longrightarrow> prefix (properties db) (properties db')
     \<Longrightarrow> property_links_for db' part le"
  unfolding property_links_for_def
  by (erule list_all2_mono) (rule property_link_for_prefix)

lemma updateProperties_links:
  "updateProperties compiles now link pds db = (Inr u, db') \<Longrightarrow>
     \<exists>added. event_properties db' = event_properties db @ added
       \<and> list_all2 (property_link_for db' link) added pds"
proof (induction pds arbitrary: db)
  case Nil
  then show ?case by simp
next
  case (Cons pd pds)
  let ?d = "\<lparr> cp_name = epd_name pd, cp_type = epd_type pd, cp_description = epd_description pd,
               cp_validation_rules = epd_validation_rules pd, cp_create_time = None \<rparr>"
  from Cons.prems obtain p db1 l db2 where
      f: "findOrCreateProperty compiles now ?d db = (Inr p, db1)"
    and s: "save_EventProperty now link (pr_id p) (epd_required pd) db1 = (Inr l, db2)"
    and rest: "updateProperties compiles now link pds db2 = (Inr u, db')"
    by (auto split: prod.splits sum.splits)
  from Cons.IH [OF rest] obtain added where
    a: "event_properties db' = event_properties db2 @ added"
       "list_all2 (property_link_for db' link) added pds" by blast
  note F = findOrCreateProperty_frame [OF f]
  note S = save_EventProperty_frame [OF s]
  note R = save_EventProperty_row [OF s]
  note U = updateProperties_frame [OF rest]
  from findOrCreateProperty_resolved [OF f] obtain row where
    row: "resolved db1 (epd_name pd) (epd_type pd) = Some row" "pr_id row = pr_id p"
         "pr_description row = epd_description pd" by auto
  from S U have "prefix (properties db1) (properties db')" by simp
  from resolved_prefix [OF row(1) this] row R
  have "property_link_for db' link l pd" by (simp add: property_link_for_def)
  with a F R show ?case
    by (intro exI [of _ "l # added"]) simp
qed

lemma updateEvents_links:
  "updateEvents compiles now i evs db = (Inr u, db') \<Longrightarrow>
     \<exists>new_links parts.
         tracking_plan_events db' = tracking_plan_events db @ new_links
       \<and> list_all2 (event_link_for db' i) new_links evs
       \<and> event_properties db' = event_properties db @ concat parts
       \<and> list_all2 (property_links_for db') parts (zip new_links evs)"
proof (induction evs arbitrary: db)
  case Nil
  then show ?case by simp
next
  case (Cons ed evs)
  let ?d = "\<lparr> ce_name = tped_name ed, ce_type = tped_type ed,
               ce_description = tped_description ed, ce_create_time = None \<rparr>"
  from Cons.prems obtain event db1 l db2 db3 where
      f: "findOrCreateEvent now ?d db = (Inr event, db1)"
    and s: "save_TrackingPlanEvent now i (ev_id event) (tped_additionalProperties ed) db1 = (Inr l, db2)"
    and p: "updateProperties compiles now (tpe_id l) (tped_properties ed) db2 = (Inr (), db3)"
    and rest: "updateEvents compiles now i evs db3 = (Inr u, db')"
    by (auto split: prod.splits sum.splits)
  from Cons.IH [OF rest] obtain new_links parts where
    a: "tracking_plan_events db' = tracking_plan_events db3 @ new_links"
       "list_all2 (event_link_for db' i) new_links evs"
       "event_properties db' = event_properties db3 @ concat parts"
       "list_all2 (property_links_for db') parts (zip new_links evs)" by blast
  note F = findOrCreateEvent_frame [OF f]
  note S = save_TrackingPlanEvent_frame [OF s]
  note R = save_TrackingPlanEvent_row [OF s]
  note P = updateProperties_frame [OF p]
  note U = updateEvents_frame [OF rest]
  from updateProperties_links [OF p] obtain part where
    part: "event_properties db3 = event_properties db2 @ part"
          "list_all2 (property_link_for db3 (tpe_id l)) part (tped_properties ed)" by blast
  from findOrCreateEvent_resolved [OF f]
  have ev: "resolved_event db1 (tped_name ed) (tped_type ed) = Some event"
           "ev_description event = tped_description ed" by simp_all
  from S P U have "prefix (events db1) (events db')"
    by (auto intro: prefix_order.trans)
  from resolved_event_prefix [OF ev(1) this] ev(2) R
  have l: "event_link_for db' i l ed" by (simp add: event_link_for_def)
  from part(2) have "property_links_for db3 part (l, ed)"
    by (simp add: property_links_for_def)
  from property_links_for_prefix [OF this] U
  have pl: "property_links_for db' part (l, ed)" by simp
  from F S R P have t: "tracking_plan_events db3 = tracking_plan_events db @ [l]" by simp
  from F S part have e: "event_properties db3 = event_properties db @ part" by simp
  from a t e l pl show ?case
    by (intro exI [of _ "l # new_links"] exI [of _ "part # parts"]) simp
qed

lemma update_basic_info_frame:
  assumes "update_basic_info now i data db = (r, db')"
  shows "events db' = events db \<and> properties db' = properties db
       \<and> tracking_plan_events db' = tracking_plan_events db
       \<and> event_properties db' = event_properties db \<and> available db' = available db
       \<and> runner_statements db' = runner_statements db
       \<and> next_id db' = next_id db"
  using assms
  by (auto simp: update_basic_info_def update_TrackingPlan_def Let_def
           split: if_splits prod.splits sum.splits option.splits)

lemma softDelete_links_of_plan_result:
  assumes "softDelete_links_of_plan now i db = (Inr u, db')"
  shows "tracking_plan_events db' = map (mark_deleted now i) (tracking_plan_events db)
       \<and> plans db' = plans db \<and> events db' = events db \<and> properties db' = properties db
       \<and> event_properties db' = event_properties db \<and> available db' = available db
       \<and> next_id db' = next_id db
       \<and> (runner_statements db = None \<longrightarrow> runner_statements db' = None)"
  using assms
  by (auto simp: softDelete_links_of_plan_def runner_used_def mark_deleted_def split: if_splits)

lemma updateTrackingPlan_try_links:
  assumes "updateTrackingPlan_try compiles now i data db = (Inr u, db')"
      and "utp_events data = Some evs"
  shows "\<exists>new_links parts.
           tracking_plan_events db'
             = map (mark_deleted now i) (tracking_plan_events db) @ new_links
         \<and> list_all2 (event_link_for db' i) new_links evs
         \<and> event_properties db' = event_properties db @ concat parts
         \<and> list_all2 (property_links_for db') parts (zip new_links evs)"
proof -
  from assms obtain db1 db2 where
      b: "update_basic_info now i data db = (Inr (), db1)"
    and s: "softDelete_links_of_plan now i db1 = (Inr (), db2)"
    and e: "updateEvents compiles now i evs db2 = (Inr u, db')"
    by (auto simp: updateTrackingPlan_try_def update_relationships_def
             split: sum.splits prod.splits)
  note B = update_basic_info_frame [OF b]
  note S = softDelete_links_of_plan_result [OF s]
  from updateEvents_links [OF e] B S
  show ?thesis by simp
qed

lemma then_commit_Inr:
  "then_commit p = (Inr x, db') \<Longrightarrow> p = (Inr x, db')"
  by (cases p) (auto simp: then_commit_def commitTransaction_def
                     split: sum.splits prod.splits if_splits)

lemma catch_rollback_not_success:
  "\<not> returned_success (fst (catch_rollback c started e db))"
  by (simp add: catch_rollback_def split: prod.splits sum.splits)

lemma updateTrackingPlan_caught:
  "then_commit (updateTrackingPlan_try compiles now i data db) = (Inl e, db2) \<Longrightarrow> available db
     \<Longrightarrow> updateTrackingPlan compiles now i data db
           = catch_rollback ''UPDATE_TRACKING_PLAN_ERROR'' db e db2"
  by (simp add: updateTrackingPlan_def)

lemma updateTrackingPlan_committed:
  "then_commit (updateTrackingPlan_try compiles now i data db) = (Inr x, db2) \<Longrightarrow> available db
     \<Longrightarrow> snd (updateTrackingPlan compiles now i data db) = db2"
  by (simp add: updateTrackingPlan_def split: sum.splits)

lemma updateTrackingPlan_success_available:
  "returned_success (fst (updateTrackingPlan compiles now i data db)) \<Longrightarrow> available db"
  by (cases "available db") (simp_all add: updateTrackingPlan_def)

lemma updateTrackingPlan_success:
  assumes "returned_success (fst (updateTrackingPlan compiles now i data db))"
  shows "\<exists>u. updateTrackingPlan_try compiles now i data db
               = (Inr u, snd (updateTrackingPlan compiles now i data db))"
proof -
  from assms have a: "available db" by (rule updateTrackingPlan_success_available)
  obtain c db2 where tc: "then_commit (updateTrackingPlan_try compiles now i data db) = (c, db2)"
    by (cases "then_commit (updateTrackingPlan_try compiles now i data db)")
  show ?thesis
  proof (cases c)
    case (Inl e)
    with tc have "then_commit (updateTrackingPlan_try compiles now i data db) = (Inl e, db2)"
      by simp
    from updateTrackingPlan_caught [OF this a] assms show ?thesis
      by (simp add: catch_rollback_not_success)
  next
    case (Inr x)
    with tc have k: "then_commit (updateTrackingPlan_try compiles now i data db) = (Inr x, db2)"
      by simp
    from then_commit_Inr [OF k] updateTrackingPlan_committed [OF k a] show ?thesis
      by simp
  qed
qed

lemma updateTrackingPlan_name_taken:
  assumes "findById_TrackingPlan db i = Inr (Some plan)"
      and "utp_name data = Some n" and "n \<noteq> []" and "n \<noteq> tp_name plan"
      and "findByNameExcludingId db n i = Inr (Some other)"
      and "runner_up db"
  shows "updateTrackingPlan compiles now i data db
           = (Returns (Failure ''UPDATE_TRACKING_PLAN_ERROR''
                (''TrackingPlan '' @ sq @ n @ sq @ '' already exists'')), db)"
  using assms findById_TrackingPlan_available [OF assms(1)]
  by (simp add: updateTrackingPlan_def updateTrackingPlan_try_def update_check_name_def
        then_commit_def catch_rollback_def rollbackTransaction_def)

lemma find_map_same:
  assumes "\<And>x. P (f x) = P x"
  shows "find P (map f xs) = map_option f (find P xs)"
  using assms by (induction xs) auto

lemma update_TrackingPlan_found:
  assumes "findById_TrackingPlan db i = Inr (Some plan)"
  shows "findById_TrackingPlan
           (db\<lparr> plans := map (\<lambda>p. if tp_id p = i then apply_plan_update now n d p else p)
                            (plans db) \<rparr>) i
         = Inr (Some (apply_plan_update now n d plan))"
proof -
  from assms have av: "available db"
    and f: "find (\<lambda>p. tp_id p = i \<and> \<not> tp_is_deleted p) (plans db) = Some plan"
    by (auto simp: findById_TrackingPlan_def run_query_def split: if_splits)
  from f have i: "tp_id plan = i" by (auto dest: find_Some_props)
  have m: "find (\<lambda>p. tp_id p = i \<and> \<not> tp_is_deleted p)
             (map (\<lambda>p. if tp_id p = i then apply_plan_update now n d p else p) (plans db))
           = map_option (\<lambda>p. if tp_id p = i then apply_plan_update now n d p else p)
               (find (\<lambda>p. tp_id p = i \<and> \<not> tp_is_deleted p) (plans db))"
    by (rule find_map_same) (simp add: apply_plan_update_def)
  from av f i m show ?thesis
    by (simp add: findById_TrackingPlan_def run_query_def)
qed

lemma update_TrackingPlan_keeps:
  assumes "update_TrackingPlan now i n d db = (r, db')"
      and "findById_TrackingPlan db i = Inr (Some plan)"
  shows "\<exists>plan'. findById_TrackingPlan db' i = Inr (Some plan')"
proof -
  from assms(2) have av: "available db"
    and f: "find (\<lambda>p. tp_id p = i \<and> \<not> tp_is_deleted p) (plans db) = Some plan"
    by (auto simp: findById_TrackingPlan_def run_query_def split: if_splits)
  have m: "find (\<lambda>p. tp_id p = i \<and> \<not> tp_is_deleted p)
             (map (\<lambda>p. if tp_id p = i then apply_plan_update now n d p else p) (plans db))
           = map_option (\<lambda>p. if tp_id p = i then apply_plan_update now n d p else p)
               (find (\<lambda>p. tp_id p = i \<and> \<not> tp_is_deleted p) (plans db))"
    by (rule find_map_same) (simp add: apply_plan_update_def)
  from assms(1) av f m show ?thesis
    by (auto simp: update_TrackingPlan_def findById_TrackingPlan_def run_query_def Let_def
             split: if_splits option.splits)
qed

lemma update_TrackingPlan_named:
  assumes "update_TrackingPlan now i (Some n) d db = (Inr r, db')"
      and "findById_TrackingPlan db i = Inr (Some plan)"
  shows "\<exists>plan'. findById_TrackingPlan db' i = Inr (Some plan') \<and> tp_name plan' = n"
proof -
  from assms(2) have "available db"
    and "find (\<lambda>p. tp_id p = i \<and> \<not> tp_is_deleted p) (plans db) = Some plan"
    by (auto simp: findById_TrackingPlan_def run_query_def split: if_splits)
  then have "find (\<lambda>p. tp_id p = i) (plans db) \<noteq> None"
    by (auto simp: find_None_iff dest: find_Some_props)
  with assms(1) \<open>available db\<close> update_TrackingPlan_found [OF assms(2), of now "Some n" d]
  show ?thesis
    by (auto simp: update_TrackingPlan_def Let_def apply_plan_update_def
             split: if_splits option.splits)
qed

lemma update_basic_info_keeps:
  assumes "update_basic_info now i data db = (r, db')"
      and "findById_TrackingPlan db i = Inr (Some plan)"
  shows "\<exists>plan'. findById_TrackingPlan db' i = Inr (Some plan')"
proof (cases "given (utp_name data) \<or> given (utp_description data)")
  case False
  with assms show ?thesis by (auto simp: update_basic_info_def)
next
  case True
  obtain r1 db1 where u: "update_TrackingPlan now i (if_given (utp_name data))
                            (if_given (utp_description data)) db = (r1, db1)"
    by (cases "update_TrackingPlan now i (if_given (utp_name data))
                 (if_given (utp_description data)) db")
  from update_TrackingPlan_keeps [OF u assms(2)] u True assms(1) show ?thesis
    by (cases r1) (auto simp: update_basic_info_def)
qed

lemma update_basic_info_named:
  assumes "update_basic_info now i data db = (Inr u, db')"
      and "findById_TrackingPlan db i = Inr (Some plan)"
      and "utp_name data = Some n" and "n \<noteq> []"
  shows "\<exists>plan'. findById_TrackingPlan db' i = Inr (Some plan') \<and> tp_name plan' = n"
proof -
  from assms(3,4) have g: "given (utp_name data)" "if_given (utp_name data) = Some n"
    by (simp_all add: given_def if_given_def)
  obtain r1 db1 where u: "update_TrackingPlan now i (Some n)
                            (if_given (utp_description data)) db = (r1, db1)"
    by (cases "update_TrackingPlan now i (Some n) (if_given (utp_description data)) db")
  show ?thesis
  proof (cases r1)
    case (Inl e)
    with assms(1) g u show ?thesis by (simp add: update_basic_info_def)
  next
    case (Inr p)
    with assms(1) g u have "db' = db1" by (simp add: update_basic_info_def)
    with update_TrackingPlan_named [OF _ assms(2)] u Inr show ?thesis by blast
  qed
qed

lemma findById_TrackingPlan_cong:
  "plans db' = plans db \<Longrightarrow> available db' = available db
     \<Longrightarrow> findById_TrackingPlan db' i = findById_TrackingPlan db i"
  by (simp add: findById_TrackingPlan_def run_query_def)

lemma update_check_name_found:
  assumes "update_check_name i data db = Inr u"
  shows "\<exists>plan. findById_TrackingPlan db i = Inr (Some plan)"
proof (cases "findById_TrackingPlan db i")
  case (Inl e)
  with assms show ?thesis by (simp add: update_check_name_def)
next
  case (Inr found)
  with assms show ?thesis by (cases found) (simp_all add: update_check_name_def)
qed

lemma update_check_name_free:
  assumes "update_check_name i data db = Inr u"
      and "findById_TrackingPlan db i = Inr (Some plan)"
      and "utp_name data = Some n" and "n \<noteq> []" and "n \<noteq> tp_name plan"
  shows "findByNameExcludingId db n i = Inr None"
  using assms
  by (auto simp: update_check_name_def split: sum.splits option.splits)

lemma softDelete_links_of_plan_frame:
  assumes "softDelete_links_of_plan now i db = (r, db')"
  shows "plans db' = plans db \<and> events db' = events db \<and> properties db' = properties db
       \<and> event_properties db' = event_properties db \<and> available db' = available db
       \<and> next_id db' = next_id db
       \<and> (runner_statements db = None \<longrightarrow> runner_statements db' = None)"
  using assms
  by (auto simp: softDelete_links_of_plan_def runner_used_def split: if_splits)

lemma update_relationships_frame:
  assumes "update_relationships compiles now i data db = (r, db')"
  shows "plans db' = plans db \<and> available db' = available db
       \<and> (runner_statements db = None \<longrightarrow> runner_statements db' = None)"
proof (cases "utp_events data")
  case None
  with assms show ?thesis by (simp add: update_relationships_def)
next
  case (Some evs)
  obtain r1 db1 where s: "softDelete_links_of_plan now i db = (r1, db1)"
    by (cases "softDelete_links_of_plan now i db")
  note S = softDelete_links_of_plan_frame [OF s]
  show ?thesis
  proof (cases r1)
    case (Inl e)
    with assms Some s S show ?thesis by (simp add: update_relationships_def)
  next
    case (Inr u)
    with assms Some s have e: "updateEvents compiles now i evs db1 = (r, db')"
      by (simp add: update_relationships_def)
    from updateEvents_frame [OF e] S show ?thesis by simp
  qed
qed

lemma updateTrackingPlan_try_steps:
  assumes "updateTrackingPlan_try compiles now i data db = (Inr u, db')"
  shows "\<exists>u0 u1 db1. update_check_name i data db = Inr u0
           \<and> update_basic_info now i data db = (Inr u1, db1)
           \<and> update_relationships compiles now i data db1 = (Inr u, db')"
proof (cases "update_check_name i data db")
  case (Inl e)
  with assms show ?thesis by (simp add: updateTrackingPlan_try_def)
next
  case (Inr u0)
  obtain rb db1 where b: "update_basic_info now i data db = (rb, db1)"
    by (cases "update_basic_info now i data db")
  show ?thesis
  proof (cases rb)
    case (Inl e)
    with assms Inr b show ?thesis by (simp add: updateTrackingPlan_try_def)
  next
    case (Inr u1)
    with assms \<open>update_check_name i data db = Inr u0\<close> b show ?thesis
      by (simp add: updateTrackingPlan_try_def)
  qed
qed

lemma updateTrackingPlan_try_name:
  assumes "updateTrackingPlan_try compiles now i data db = (Inr u, db')"
      and "findById_TrackingPlan db i = Inr (Some plan)"
      and "utp_name data = Some n" and "n \<noteq> []"
  shows "(\<exists>plan'. findById_TrackingPlan db' i = Inr (Some plan') \<and> tp_name plan' = n)
       \<and> (n \<noteq> tp_name plan \<longrightarrow> findByNameExcludingId db n i = Inr None)"
proof -
  from updateTrackingPlan_try_steps [OF assms(1)] obtain u0 u1 db1 where
      c: "update_check_name i data db = Inr u0"
    and b: "update_basic_info now i data db = (Inr u1, db1)"
    and r: "update_relationships compiles now i data db1 = (Inr u, db')"
    by blast
  from update_basic_info_named [OF b assms(2,3,4)] obtain plan1 where
    p1: "findById_TrackingPlan db1 i = Inr (Some plan1)" "tp_name plan1 = n" by blast
  from update_relationships_frame [OF r] findById_TrackingPlan_cong [of db' db1 i]
  have "findById_TrackingPlan db' i = findById_TrackingPlan db1 i" by simp
  with p1 have "\<exists>plan'. findById_TrackingPlan db' i = Inr (Some plan') \<and> tp_name plan' = n"
    by simp
  moreover from update_check_name_free [OF c assms(2,3,4)]
  have "n \<noteq> tp_name plan \<longrightarrow> findByNameExcludingId db n i = Inr None" by blast
  ultimately show ?thesis by blast
qed

lemmas update_example_defs =
  ex_store_plan_def ex_plan_def ex_event_def ex_property_def ex_plan_event_def
  ex_event_property_def ex_update_purchase_def ex_purchase_event_def ex_product_ref_def
  ex_compiles_def ex_plan2_def ex_store_two_plans_def ex_update_rename_def
  ex_cart_event_def ex_update_relist_def ex_store_runner_lost_def

lemmas update_defs =
  updateTrackingPlan_def updateTrackingPlan_try_def update_check_name_def update_basic_info_def
  update_relationships_def softDelete_links_of_plan_def findById_TrackingPlan_def
  findByNameExcludingId_def given_def fetch_updated_def findWithEvents_def mapToResponseDto_def
  event_entry_def property_entry_def or_null_def findOrCreateEvent_def findOrCreateProperty_def
  validate_if_provided_def rules_differ_def then_commit_def commitTransaction_def
  catch_rollback_def rollbackTransaction_def discard_transaction_def runner_up_def
  runner_used_def

text \<open>
  C6, as stated, fails. The plan of the example store links the event add_to_cart
  through link 4, which carries the event-property link 5. The update replaces the
  event list by the single event purchase and succeeds. Afterwards the old plan-event
  link 4 is marked deleted, but its event-property link 5 is a row unchanged, with
  \<open>is_deleted\<close> still false: the update never writes to old event-property links.
\<close>

theorem updateTrackingPlan_keeps_event_property_links:
  "returned_success (fst (updateTrackingPlan ex_compiles 9 1 ex_update_purchase ex_store_plan))
   \<and> tracking_plan_events ex_store_plan = [ex_plan_event]
   \<and> event_properties ex_store_plan = [ex_event_property]
   \<and> ep_tracking_plan_event_id ex_event_property = tpe_id ex_plan_event
   \<and> tracking_plan_events (snd (updateTrackingPlan ex_compiles 9 1 ex_update_purchase ex_store_plan))
       = [ex_plan_event\<lparr> tpe_is_deleted := True, tpe_deleted_at := Some 9 \<rparr>,
          \<lparr> tpe_id = 7, tpe_tracking_plan_id = 1, tpe_event_id = 6,
            tpe_additional_properties = True, tpe_created_at = 9, tpe_is_deleted = False,
            tpe_deleted_at = None \<rparr>]
   \<and> event_properties (snd (updateTrackingPlan ex_compiles 9 1 ex_update_purchase ex_store_plan))
       = [ex_event_property,
          \<lparr> ep_id = 8, ep_tracking_plan_event_id = 7, ep_property_id = 3, ep_required = False,
            ep_created_at = 9, ep_is_deleted = False, ep_deleted_at = None \<rparr>]
   \<and> \<not> ep_is_deleted ex_event_property"
  by (simp add: update_example_defs update_defs repository_defs Let_def)

text \<open>
  An update whose event list names an event that the plan has linked before does not
  get as far as new links. The old link is only marked deleted, it stays in the table,
  and the unique index on (plan, event) has no condition on \<open>is_deleted\<close>: the
  insert of the new link is refused as a duplicate, the update returns a failure, and
  the rollback takes the soft-deletion back. Here the update lists the very event
  that the plan links.
\<close>

lemma updateTrackingPlan_relisted_event_refused:
  "updateTrackingPlan ex_compiles 9 1 ex_update_relist ex_store_plan
     = (Returns (Failure ''UPDATE_TRACKING_PLAN_ERROR''
          ''duplicate key value violates unique constraint''), ex_store_plan)"
  by (simp add: update_example_defs update_defs repository_defs duplicate_key_def Let_def)

text \<open>
  C6, amended. The statement is about updates that return a success and, for the
  name check, about updates during which the connection of the transaction holds;
  what an update does whose list names an event the plan has linked before is left out
  of it (see the lemma above). When an update that supplies an event list succeeds,
  the plan-event link table afterwards consists of the old rows, each row of this plan
  marked deleted with the current time and each row of another plan unchanged,
  followed by one new link per supplied event, in the order of the list: a non-deleted
  link of this plan with the event's flag, pointing to the event row that the event's
  name and type resolve to, whose description is the one supplied. The event-property
  link table consists of all the old rows, unchanged and so not marked deleted,
  followed, for each new plan-event link in turn, by one new non-deleted link per
  property reference of its event, carrying the reference's \<open>required\<close> flag and
  pointing to the property row that the reference's name and type resolve to, whose
  description is the one supplied. When an update that gives a non-empty name
  succeeds, the plan carries that name afterwards, and if the name differs from the
  plan's current one, no other non-deleted plan had it. And when a name is given that
  is non-empty and differs from the plan's current name, and another non-deleted plan
  has that name, the update fails with the uniqueness error for that name and the
  store is unchanged.
\<close>

theorem updateTrackingPlan_links_and_name:
  "(returned_success (fst (updateTrackingPlan compiles now i data db)) \<and> utp_events data = Some evs
      \<longrightarrow> (\<exists>new_links parts.
              tracking_plan_events (snd (updateTrackingPlan compiles now i data db))
                = map (mark_deleted now i) (tracking_plan_events db) @ new_links
            \<and> list_all2 (event_link_for (snd (updateTrackingPlan compiles now i data db)) i)
                new_links evs
            \<and> event_properties (snd (updateTrackingPlan compiles now i data db))
                = event_properties db @ concat parts
            \<and> list_all2 (property_links_for (snd (updateTrackingPlan compiles now i data db)))
                parts (zip new_links evs)))
   \<and> (returned_success (fst (updateTrackingPlan compiles now i data db))
        \<and> findById_TrackingPlan db i = Inr (Some plan) \<and> utp_name data = Some n \<and> n \<noteq> []
      \<longrightarrow> (\<exists>plan'. findById_TrackingPlan (snd (updateTrackingPlan compiles now i data db)) i
                      = Inr (Some plan') \<and> tp_name plan' = n)
          \<and> (n \<noteq> tp_name plan \<longrightarrow> findByNameExcludingId db n i = Inr None))
   \<and> (findById_TrackingPlan db i = Inr (Some plan) \<and> utp_name data = Some n \<and> n \<noteq> []
        \<and> n \<noteq> tp_name plan \<and> findByNameExcludingId db n i = Inr (Some other) \<and> runner_up db
      \<longrightarrow> updateTrackingPlan compiles now i data db
            = (Returns (Failure ''UPDATE_TRACKING_PLAN_ERROR''
                 (''TrackingPlan '' @ sq @ n @ sq @ '' already exists'')), db))"
proof (intro conjI impI)
  assume a: "returned_success (fst (updateTrackingPlan compiles now i data db))
               \<and> utp_events data = Some evs"
  then obtain u where
    "updateTrackingPlan_try compiles now i data db
       = (Inr u, snd (updateTrackingPlan compiles now i data db))"
    using updateTrackingPlan_success by blast
  from updateTrackingPlan_try_links [OF this] a
  show "\<exists>new_links parts.
              tracking_plan_events (snd (updateTrackingPlan compiles now i data db))
                = map (mark_deleted now i) (tracking_plan_events db) @ new_links
            \<and> list_all2 (event_link_for (snd (updateTrackingPlan compiles now i data db)) i)
                new_links evs
            \<and> event_properties (snd (updateTrackingPlan compiles now i data db))
                = event_properties db @ concat parts
            \<and> list_all2 (property_links_for (snd (updateTrackingPlan compiles now i data db)))
                parts (zip new_links evs)"
    by blast
next
  assume a: "returned_success (fst (updateTrackingPlan compiles now i data db))
        \<and> findById_TrackingPlan db i = Inr (Some plan) \<and> utp_name data = Some n \<and> n \<noteq> []"
  then obtain u where
    t: "updateTrackingPlan_try compiles now i data db
       = (Inr u, snd (updateTrackingPlan compiles now i data db))"
    using updateTrackingPlan_success by blast
  from a have f: "findById_TrackingPlan db i = Inr (Some plan)"
    and n: "utp_name data = Some n" "n \<noteq> []" by simp_all
  note N = updateTrackingPlan_try_name [OF t f n]
  from N show "\<exists>plan'. findById_TrackingPlan (snd (updateTrackingPlan compiles now i data db)) i
                      = Inr (Some plan') \<and> tp_name plan' = n" by blast
  assume "n \<noteq> tp_name plan"
  with N show "findByNameExcludingId db n i = Inr None" by blast
next
  assume "findById_TrackingPlan db i = Inr (Some plan) \<and> utp_name data = Some n \<and> n \<noteq> []
            \<and> n \<noteq> tp_name plan \<and> findByNameExcludingId db n i = Inr (Some other) \<and> runner_up db"
  then show "updateTrackingPlan compiles now i data db
               = (Returns (Failure ''UPDATE_TRACKING_PLAN_ERROR''
                    (''TrackingPlan '' @ sq @ n @ sq @ '' already exists'')), db)"
    using updateTrackingPlan_name_taken by blast
qed

theorem updateTrackingPlan_links_and_name_witness:
  "returned_success (fst (updateTrackingPlan ex_compiles 9 1 ex_update_purchase ex_store_plan))
   \<and> utp_events ex_update_purchase = Some [ex_purchase_event]
   \<and> (\<exists>new_links parts.
          tracking_plan_events (snd (updateTrackingPlan ex_compiles 9 1 ex_update_purchase ex_store_plan))
            = map (mark_deleted 9 1) (tracking_plan_events ex_store_plan) @ new_links
        \<and> list_all2 (event_link_for
              (snd (updateTrackingPlan ex_compiles 9 1 ex_update_purchase ex_store_plan)) 1)
            new_links [ex_purchase_event]
        \<and> event_properties (snd (updateTrackingPlan ex_compiles 9 1 ex_update_purchase ex_store_plan))
            = event_properties ex_store_plan @ concat parts
        \<and> list_all2 (property_links_for
              (snd (updateTrackingPlan ex_compiles 9 1 ex_update_purchase ex_store_plan)))
            parts (zip new_links [ex_purchase_event]))
   \<and> returned_success (fst (updateTrackingPlan ex_compiles 9 1 ex_update_rename ex_store_plan))
   \<and> findById_TrackingPlan ex_store_plan 1 = Inr (Some ex_plan)
   \<and> utp_name ex_update_rename = Some ''Signup''
   \<and> ''Signup'' \<noteq> tp_name ex_plan
   \<and> (\<exists>plan'. findById_TrackingPlan
                  (snd (updateTrackingPlan ex_compiles 9 1 ex_update_rename ex_store_plan)) 1
                = Inr (Some plan') \<and> tp_name plan' = ''Signup'')
   \<and> findByNameExcludingId ex_store_plan ''Signup'' 1 = Inr None
   \<and> findById_TrackingPlan ex_store_two_plans 1 = Inr (Some ex_plan)
   \<and> findByNameExcludingId ex_store_two_plans ''Signup'' 1 = Inr (Some ex_plan2)
   \<and> runner_up ex_store_two_plans
   \<and> updateTrackingPlan ex_compiles 9 1 ex_update_rename ex_store_two_plans
       = (Returns (Failure ''UPDATE_TRACKING_PLAN_ERROR''
            (''TrackingPlan '' @ sq @ ''Signup'' @ sq @ '' already exists'')), ex_store_two_plans)"
proof -
  have s: "returned_success
             (fst (updateTrackingPlan ex_compiles 9 1 ex_update_purchase ex_store_plan))"
    by (simp add: update_example_defs update_defs repository_defs Let_def)
  have e: "utp_events ex_update_purchase = Some [ex_purchase_event]"
    by (simp add: ex_update_purchase_def)
  have s2: "returned_success
              (fst (updateTrackingPlan ex_compiles 9 1 ex_update_rename ex_store_plan))"
    by (simp add: update_example_defs update_defs repository_defs apply_plan_update_def
          update_TrackingPlan_def if_given_def Let_def)
  have f1: "findById_TrackingPlan ex_store_plan 1 = Inr (Some ex_plan)"
    by (simp add: update_example_defs update_defs repository_defs)
  have f: "findById_TrackingPlan ex_store_two_plans 1 = Inr (Some ex_plan)"
    by (simp add: update_example_defs update_defs repository_defs)
  have x: "findByNameExcludingId ex_store_two_plans ''Signup'' 1 = Inr (Some ex_plan2)"
    by (simp add: update_example_defs update_defs repository_defs)
  have n: "utp_name ex_update_rename = Some ''Signup''" "''Signup'' \<noteq> tp_name ex_plan"
          "''Signup'' \<noteq> []"
    by (simp_all add: update_example_defs)
  have r: "runner_up ex_store_two_plans"
    by (simp add: update_example_defs runner_up_def)
  note links = updateTrackingPlan_links_and_name
    [of ex_compiles 9 1 ex_update_purchase ex_store_plan "[ex_purchase_event]" ex_plan
        "''Signup''" ex_plan2]
  note renamed = updateTrackingPlan_links_and_name
    [of ex_compiles 9 1 ex_update_rename ex_store_plan "[]" ex_plan "''Signup''" ex_plan2]
  note taken = updateTrackingPlan_links_and_name
    [of ex_compiles 9 1 ex_update_rename ex_store_two_plans "[]" ex_plan "''Signup''" ex_plan2]
  from links s e have c1:
    "\<exists>new_links parts.
          tracking_plan_events (snd (updateTrackingPlan ex_compiles 9 1 ex_update_purchase ex_store_plan))
            = map (mark_deleted 9 1) (tracking_plan_events ex_store_plan) @ new_links
        \<and> list_all2 (event_link_for
              (snd (updateTrackingPlan ex_compiles 9 1 ex_update_purchase ex_store_plan)) 1)
            new_links [ex_purchase_event]
        \<and> event_properties (snd (updateTrackingPlan ex_compiles 9 1 ex_update_purchase ex_store_plan))
            = event_properties ex_store_plan @ concat parts
        \<and> list_all2 (property_links_for
              (snd (updateTrackingPlan ex_compiles 9 1 ex_update_purchase ex_store_plan)))
            parts (zip new_links [ex_purchase_event])"
    by blast
  from renamed s2 f1 n have c2:
    "\<exists>plan'. findById_TrackingPlan
                  (snd (updateTrackingPlan ex_compiles 9 1 ex_update_rename ex_store_plan)) 1
                = Inr (Some plan') \<and> tp_name plan' = ''Signup''"
    and c3: "findByNameExcludingId ex_store_plan ''Signup'' 1 = Inr None"
    by blast+
  from taken f x n r have c4:
    "updateTrackingPlan ex_compiles 9 1 ex_update_rename ex_store_two_plans
       = (Returns (Failure ''UPDATE_TRACKING_PLAN_ERROR''
            (''TrackingPlan '' @ sq @ ''Signup'' @ sq @ '' already exists'')), ex_store_two_plans)"
    by blast
  from s e c1 s2 f1 n c2 c3 f x r c4 show ?thesis by blast
qed

section \<open>Shared properties in plan creation (C2)\<close>

lemma rows_step_refl: "rows_step db db n t"
  by (simp add: rows_step_def)

lemma rows_step_same: "properties db' = properties db \<Longrightarrow> rows_step db db' n t"
  by (simp add: rows_step_def property_rows_def)

lemma rows_step_trans: "rows_step a b n t \<Longrightarrow> rows_step b c n t \<Longrightarrow> rows_step a c n t"
  by (auto simp: rows_step_def)

lemma rows_step_eq: "properties c = properties b \<Longrightarrow> rows_step a b n t \<Longrightarrow> rows_step a c n t"
  by (auto simp: rows_step_def property_rows_def)

lemma list_ex_filter_empty: "\<not> list_ex P xs \<Longrightarrow> filter P xs = []"
  by (induction xs) auto

lemma create_Property_rows:
  assumes "create_Property now n0 t0 d rules ct db = (r, db')"
  shows "rows_step db db' n t"
  using assms
  by (auto simp: create_Property_def rows_step_def property_rows_def Let_def list_ex_filter_empty
           split: if_splits)

lemma findOrCreateProperty_rows:
  assumes "findOrCreateProperty compiles now d db = (r, db')"
  shows "rows_step db db' n t"
  using assms
  by (auto simp: findOrCreateProperty_def rows_step_refl create_Property_rows
           split: sum.splits option.splits if_splits)

lemma entry_resolved_prefix:
  assumes "prefix (properties db) (properties db')" and "entry_resolved db e"
  shows "entry_resolved db' e"
  using assms
  by (auto simp: entry_resolved_def split: option.splits dest: resolved_prefix)

lemma save_EventProperty_rows:
  assumes "save_EventProperty now l p req db = (r, db')"
  shows "properties db' = properties db"
  using save_EventProperty_frame [OF assms] by simp

lemma processProperties_inv:
  "processProperties compiles now ct link pds db = (r, db') \<Longrightarrow>
     plans db' = plans db \<and> events db' = events db
       \<and> tracking_plan_events db' = tracking_plan_events db \<and> available db' = available db
       \<and> (runner_statements db = None \<longrightarrow> runner_statements db' = None)
       \<and> prefix (event_properties db) (event_properties db')
       \<and> prefix (properties db) (properties db') \<and> next_id db \<le> next_id db'
       \<and> rows_step db db' n t
       \<and> (\<forall>entries. r = Inr entries \<longrightarrow>
             list_all (entry_resolved db') entries \<and> map entry_key entries = map reference_key pds)"
proof (induction pds arbitrary: db r db')
  case Nil
  then show ?case by (auto simp: rows_step_refl)
next
  case (Cons pd pds)
  let ?d = "\<lparr> cp_name = epd_name pd, cp_type = epd_type pd, cp_description = epd_description pd,
               cp_validation_rules = epd_validation_rules pd, cp_create_time = ct \<rparr>"
  obtain r1 db1 where f: "findOrCreateProperty compiles now ?d db = (r1, db1)"
    by (cases "findOrCreateProperty compiles now ?d db")
  note F = findOrCreateProperty_frame [OF f]
  note FR = findOrCreateProperty_rows [OF f, of n t]
  show ?case
  proof (cases r1)
    case (Inl e)
    with Cons.prems f F FR show ?thesis by auto
  next
    case (Inr p)
    obtain r2 db2 where s: "save_EventProperty now link (pr_id p) (epd_required pd) db1 = (r2, db2)"
      by (cases "save_EventProperty now link (pr_id p) (epd_required pd) db1")
    note S = save_EventProperty_frame [OF s]
    have R2: "rows_step db db2 n t"
      using FR S by (auto intro: rows_step_eq)
    show ?thesis
    proof (cases r2)
      case (Inl e)
      with Cons.prems f Inr s F S R2 show ?thesis by auto
    next
      case (Inr ep)
      obtain r3 db3 where rest: "processProperties compiles now ct link pds db2 = (r3, db3)"
        by (cases "processProperties compiles now ct link pds db2")
      note IH = Cons.IH [OF rest]
      have frame: "plans db3 = plans db \<and> events db3 = events db
          \<and> tracking_plan_events db3 = tracking_plan_events db \<and> available db3 = available db
          \<and> (runner_statements db = None \<longrightarrow> runner_statements db3 = None)
          \<and> prefix (event_properties db) (event_properties db3)
          \<and> prefix (properties db) (properties db3) \<and> next_id db \<le> next_id db3
          \<and> rows_step db db3 n t"
        using IH F S R2 by (auto intro: prefix_order.trans rows_step_trans)
      show ?thesis
      proof (cases r3)
        case (Inl e)
        with Cons.prems f \<open>r1 = Inr p\<close> s \<open>r2 = Inr ep\<close> rest frame show ?thesis by auto
      next
        case (Inr createdProperties)
        let ?entry = "\<lparr> pe_id = pr_id p, pe_name = pr_name p, pe_type = pr_type p,
                         pe_description = pr_description p, pe_required = epd_required pd,
                         pe_validation_rules = or_null (pr_validation_rules p) \<rparr>"
        from Cons.prems f \<open>r1 = Inr p\<close> s \<open>r2 = Inr ep\<close> rest Inr
        have res: "r = Inr (?entry # createdProperties)" "db' = db3" by simp_all
        from f \<open>r1 = Inr p\<close> have "findOrCreateProperty compiles now ?d db = (Inr p, db1)" by simp
        from findOrCreateProperty_resolved [OF this] obtain row where
          rp: "resolved db1 (epd_name pd) (epd_type pd) = Some row" "pr_id row = pr_id p"
              "pr_name p = epd_name pd" "pr_type p = epd_type pd" by auto
        have "prefix (properties db1) (properties db3)"
          using IH S by simp
        from resolved_prefix [OF rp(1) this] rp
        have "entry_resolved db3 ?entry"
          by (simp add: entry_resolved_def)
        moreover have "entry_key ?entry = reference_key pd"
          using rp by (simp add: entry_key_def reference_key_def)
        ultimately show ?thesis
          using res frame IH Inr by simp
      qed
    qed
  qed
qed


lemma list_all_entries_prefix:
  assumes "prefix (properties db) (properties db')" and "list_all (entry_resolved db) es"
  shows "list_all (entry_resolved db') es"
  using assms by (auto simp: list_all_iff intro: entry_resolved_prefix)

lemma processEvents_inv:
  "processEvents compiles now ct plan_id evs db = (r, db') \<Longrightarrow>
     plans db' = plans db \<and> available db' = available db
       \<and> (runner_statements db = None \<longrightarrow> runner_statements db' = None)
       \<and> prefix (events db) (events db')
       \<and> prefix (tracking_plan_events db) (tracking_plan_events db')
       \<and> prefix (event_properties db) (event_properties db')
       \<and> prefix (properties db) (properties db') \<and> next_id db \<le> next_id db'
       \<and> rows_step db db' n t
       \<and> (\<forall>ees. r = Inr ees \<longrightarrow>
             list_all (\<lambda>ee. list_all (entry_resolved db') (ee_properties ee)) ees
             \<and> map (\<lambda>ee. map entry_key (ee_properties ee)) ees
                 = map (\<lambda>ed. map reference_key (tped_properties ed)) evs)"
proof (induction evs arbitrary: db r db')
  case Nil
  then show ?case by (auto simp: rows_step_refl)
next
  case (Cons ed evs)
  let ?d = "\<lparr> ce_name = tped_name ed, ce_type = tped_type ed,
               ce_description = tped_description ed, ce_create_time = ct \<rparr>"
  obtain r1 db1 where f: "findOrCreateEvent now ?d db = (r1, db1)"
    by (cases "findOrCreateEvent now ?d db")
  note F = findOrCreateEvent_frame [OF f]
  have R1: "rows_step db db1 n t" using F by (simp add: rows_step_same)
  show ?case
  proof (cases r1)
    case (Inl e)
    with Cons.prems f F R1 show ?thesis by auto
  next
    case (Inr event)
    obtain r2 db2 where
      s: "save_TrackingPlanEvent now plan_id (ev_id event) (tped_additionalProperties ed) db1 = (r2, db2)"
      by (cases "save_TrackingPlanEvent now plan_id (ev_id event) (tped_additionalProperties ed) db1")
    note S = save_TrackingPlanEvent_frame [OF s]
    have R2: "rows_step db db2 n t" using R1 S by (auto intro: rows_step_eq)
    show ?thesis
    proof (cases r2)
      case (Inl e)
      with Cons.prems f Inr s F S R2 show ?thesis by auto
    next
      case (Inr l)
      obtain r3 db3 where
        p: "processProperties compiles now ct (tpe_id l) (tped_properties ed) db2 = (r3, db3)"
        by (cases "processProperties compiles now ct (tpe_id l) (tped_properties ed) db2")
      note P = processProperties_inv [OF p, of n t]
      have frame3: "plans db3 = plans db \<and> available db3 = available db
          \<and> (runner_statements db = None \<longrightarrow> runner_statements db3 = None)
          \<and> prefix (events db) (events db3)
          \<and> prefix (tracking_plan_events db) (tracking_plan_events db3)
          \<and> prefix (event_properties db) (event_properties db3)
          \<and> prefix (properties db) (properties db3) \<and> next_id db \<le> next_id db3
          \<and> rows_step db db3 n t"
        using P F S R2 by (auto intro: rows_step_trans)
      show ?thesis
      proof (cases r3)
        case (Inl e)
        with Cons.prems f \<open>r1 = Inr event\<close> s \<open>r2 = Inr l\<close> p frame3 show ?thesis by auto
      next
        case (Inr createdProperties)
        obtain r4 db4 where rest: "processEvents compiles now ct plan_id evs db3 = (r4, db4)"
          by (cases "processEvents compiles now ct plan_id evs db3")
        note IH = Cons.IH [OF rest]
        have frame4: "plans db4 = plans db \<and> available db4 = available db
            \<and> (runner_statements db = None \<longrightarrow> runner_statements db4 = None)
            \<and> prefix (events db) (events db4)
            \<and> prefix (tracking_plan_events db) (tracking_plan_events db4)
            \<and> prefix (event_properties db) (event_properties db4)
            \<and> prefix (properties db) (properties db4) \<and> next_id db \<le> next_id db4
            \<and> rows_step db db4 n t"
          using IH frame3 by (auto intro: prefix_order.trans rows_step_trans)
        show ?thesis
        proof (cases r4)
          case (Inl e)
          with Cons.prems f \<open>r1 = Inr event\<close> s \<open>r2 = Inr l\<close> p \<open>r3 = Inr createdProperties\<close>
            rest frame4
          show ?thesis by auto
        next
          case (Inr createdEvents)
          let ?entry = "\<lparr> ee_id = ev_id event, ee_name = ev_name event, ee_type = ev_type event,
                           ee_description = ev_description event,
                           ee_additionalProperties = tped_additionalProperties ed,
                           ee_properties = createdProperties \<rparr>"
          from Cons.prems f \<open>r1 = Inr event\<close> s \<open>r2 = Inr l\<close> p \<open>r3 = Inr createdProperties\<close>
            rest Inr
          have res: "r = Inr (?entry # createdEvents)" "db' = db4" by simp_all
          from P \<open>r3 = Inr createdProperties\<close>
          have cp: "list_all (entry_resolved db3) createdProperties"
            "map entry_key createdProperties = map reference_key (tped_properties ed)"
            by simp_all
          have "prefix (properties db3) (properties db4)" using IH by simp
          from list_all_entries_prefix [OF this cp(1)]
          have "list_all (entry_resolved db4) createdProperties" .
          with cp(2) res frame4 IH Inr show ?thesis by simp
        qed
      qed
    qed
  qed
qed

lemma then_commit_store: "snd (then_commit p) = snd p"
  by (cases p) (auto simp: then_commit_def commitTransaction_def
                     split: sum.splits prod.splits if_splits)

lemma catch_rollback_store:
  "snd (catch_rollback c started e db) = discard_transaction started db"
  by (simp add: catch_rollback_def rollbackTransaction_def)

lemma catch_rollback_not_Success:
  "fst (catch_rollback c started e db) \<noteq> Returns (Success x)"
  by (simp add: catch_rollback_def split: prod.splits sum.splits)

lemma createTrackingPlan_caught:
  "then_commit (createTrackingPlan_try compiles now data db) = (Inl e, db2) \<Longrightarrow> available db
     \<Longrightarrow> createTrackingPlan compiles now data db
           = catch_rollback ''CREATE_TRACKING_PLAN_ERROR'' db e db2"
  by (simp add: createTrackingPlan_def)

lemma createTrackingPlan_committed:
  "then_commit (createTrackingPlan_try compiles now data db) = (Inr x, db2) \<Longrightarrow> available db
     \<Longrightarrow> createTrackingPlan compiles now data db = (Returns (Success x), db2)"
  by (simp add: createTrackingPlan_def)

lemma createTrackingPlan_properties:
  assumes "available db"
  shows "properties (snd (createTrackingPlan compiles now data db))
           = properties (snd (createTrackingPlan_try compiles now data db))"
proof -
  obtain c db2 where tc: "then_commit (createTrackingPlan_try compiles now data db) = (c, db2)"
    by (cases "then_commit (createTrackingPlan_try compiles now data db)")
  from then_commit_store [of "createTrackingPlan_try compiles now data db"] tc
  have s: "snd (createTrackingPlan_try compiles now data db) = db2" by simp
  show ?thesis
  proof (cases c)
    case (Inl e)
    with tc have "then_commit (createTrackingPlan_try compiles now data db) = (Inl e, db2)"
      by simp
    from createTrackingPlan_caught [OF this assms] s show ?thesis
      by (simp add: catch_rollback_store discard_transaction_def)
  next
    case (Inr x)
    with tc have "then_commit (createTrackingPlan_try compiles now data db) = (Inr x, db2)"
      by simp
    from createTrackingPlan_committed [OF this assms] s show ?thesis by simp
  qed
qed

lemma createTrackingPlan_rows:
  "rows_step db (snd (createTrackingPlan compiles now data db)) n t"
proof -
  have tr: "rows_step db (snd (createTrackingPlan_try compiles now data db)) n t"
  proof (cases "findByName db (ctp_name data)")
    case (Inl e)
    then show ?thesis by (simp add: createTrackingPlan_try_def rows_step_refl)
  next
    case (Inr found)
    show ?thesis
    proof (cases found)
      case (Some existing)
      with Inr show ?thesis by (simp add: createTrackingPlan_try_def rows_step_refl)
    next
      case None
      obtain r1 db1 where c: "create_TrackingPlan now (ctp_name data) (ctp_description data)
                                (or_now (ctp_create_time data) now) db = (r1, db1)"
        by (cases "create_TrackingPlan now (ctp_name data) (ctp_description data)
                     (or_now (ctp_create_time data) now) db")
      then have p1: "properties db1 = properties db"
        by (auto simp: create_TrackingPlan_def Let_def split: if_splits)
      show ?thesis
      proof (cases r1)
        case (Inl e)
        with Inr None c p1 show ?thesis
          by (simp add: createTrackingPlan_try_def rows_step_same)
      next
        case (Inr trackingPlan)
        obtain r2 db2 where e: "processEvents compiles now (ctp_create_time data)
                                  (tp_id trackingPlan) (ctp_events data) db1 = (r2, db2)"
          by (cases "processEvents compiles now (ctp_create_time data)
                       (tp_id trackingPlan) (ctp_events data) db1")
        from processEvents_inv [OF e, of n t] p1 have "rows_step db db2 n t"
          by (auto simp: rows_step_def property_rows_def)
        with \<open>findByName db (ctp_name data) = Inr found\<close> None c Inr e show ?thesis
          by (cases r2) (simp_all add: createTrackingPlan_try_def)
      qed
    qed
  qed
  show ?thesis
  proof (cases "available db")
    case False
    then show ?thesis by (simp add: createTrackingPlan_def rows_step_refl)
  next
    case True
    from createTrackingPlan_properties [OF True, of compiles now data] tr
    show ?thesis by (auto intro: rows_step_eq)
  qed
qed

lemma createTrackingPlan_success:
  assumes "fst (createTrackingPlan compiles now data db) = Returns (Success response)"
  shows "createTrackingPlan_try compiles now data db
           = (Inr response, snd (createTrackingPlan compiles now data db))"
proof -
  from assms have a: "available db"
    by (cases "available db") (simp_all add: createTrackingPlan_def)
  obtain c db2 where tc: "then_commit (createTrackingPlan_try compiles now data db) = (c, db2)"
    by (cases "then_commit (createTrackingPlan_try compiles now data db)")
  show ?thesis
  proof (cases c)
    case (Inl e)
    with tc have "then_commit (createTrackingPlan_try compiles now data db) = (Inl e, db2)"
      by simp
    from createTrackingPlan_caught [OF this a] assms show ?thesis
      by (simp add: catch_rollback_not_Success)
  next
    case (Inr x)
    with tc have k: "then_commit (createTrackingPlan_try compiles now data db) = (Inr x, db2)"
      by simp
    from then_commit_Inr [OF k] createTrackingPlan_committed [OF k a] assms show ?thesis
      by simp
  qed
qed

lemma createTrackingPlan_try_entries:
  assumes "createTrackingPlan_try compiles now data db = (Inr response, db')"
  shows "list_all (\<lambda>ee. list_all (entry_resolved db') (ee_properties ee)) (res_events response)
       \<and> map (\<lambda>ee. map entry_key (ee_properties ee)) (res_events response)
           = map (\<lambda>ed. map reference_key (tped_properties ed)) (ctp_events data)"
proof -
  from assms have "\<exists>plan_id db1.
      processEvents compiles now (ctp_create_time data) plan_id (ctp_events data) db1
        = (Inr (res_events response), db')"
    by (fastforce simp: createTrackingPlan_try_def split: sum.splits option.splits prod.splits)
  then obtain plan_id db1 where
    e: "processEvents compiles now (ctp_create_time data) plan_id (ctp_events data) db1
          = (Inr (res_events response), db')"
    by blast
  from processEvents_inv [OF e] show ?thesis by simp
qed

lemma entry_resolved_same_key:
  assumes "entry_resolved db e1" and "entry_resolved db e2" and "entry_key e1 = entry_key e2"
  shows "pe_id e1 = pe_id e2"
  using assms by (auto simp: entry_resolved_def entry_key_def split: option.splits)


lemma map_eq_nth:
  assumes "map f xs = map g ys" and "i < length ys"
  shows "i < length xs \<and> f (xs ! i) = g (ys ! i)"
proof -
  from assms(1) have l: "length xs = length ys"
    using length_map [of f xs] length_map [of g ys] by simp
  with assms(2) have i: "i < length xs" by simp
  have "map f xs ! i = map g ys ! i" using assms(1) by simp
  with i assms(2) show ?thesis by simp
qed

lemma response_entry:
  assumes "createTrackingPlan_try compiles now data db = (Inr response, db')"
      and "a < length (ctp_events data)"
      and "p < length (tped_properties (ctp_events data ! a))"
  shows "entry_resolved db' (ee_properties (res_events response ! a) ! p)
       \<and> entry_key (ee_properties (res_events response ! a) ! p)
           = reference_key (tped_properties (ctp_events data ! a) ! p)"
proof -
  note E = createTrackingPlan_try_entries [OF assms(1)]
  from E have m: "map (\<lambda>ee. map entry_key (ee_properties ee)) (res_events response)
           = map (\<lambda>ed. map reference_key (tped_properties ed)) (ctp_events data)" by simp
  from map_eq_nth [OF m assms(2)]
  have a: "a < length (res_events response)"
    and k: "map entry_key (ee_properties (res_events response ! a))
              = map reference_key (tped_properties (ctp_events data ! a))" by simp_all
  from map_eq_nth [OF k assms(3)]
  have p: "p < length (ee_properties (res_events response ! a))"
    and key: "entry_key (ee_properties (res_events response ! a) ! p)
              = reference_key (tped_properties (ctp_events data ! a) ! p)" by simp_all
  from E a have "list_all (entry_resolved db') (ee_properties (res_events response ! a))"
    by (simp add: list_all_length)
  with p have "entry_resolved db' (ee_properties (res_events response ! a) ! p)"
    by (simp add: list_all_length)
  with key show ?thesis by simp
qed

text \<open>
  What holds for every request and store. For every identity (name, type), plan
  creation adds at most one property row of that identity, whether it succeeds or
  fails. And when it returns a response, any two property references of the request
  with that name and type, at position \<open>p\<close> of event \<open>a\<close> and position \<open>q\<close> of
  event \<open>b\<close>, have entries in the response at the same positions that carry the same
  property id, the key of the one row the identity resolves to in the resulting store.
\<close>

lemma createTrackingPlan_rows_and_ids:
  "property_rows (snd (createTrackingPlan compiles now data db)) n t \<le> property_rows db n t + 1
   \<and> (fst (createTrackingPlan compiles now data db) = Returns (Success response)
        \<and> a < length (ctp_events data) \<and> b < length (ctp_events data)
        \<and> p < length (tped_properties (ctp_events data ! a))
        \<and> q < length (tped_properties (ctp_events data ! b))
        \<and> epd_name (tped_properties (ctp_events data ! a) ! p) = n
        \<and> epd_type (tped_properties (ctp_events data ! a) ! p) = t
        \<and> epd_name (tped_properties (ctp_events data ! b) ! q) = n
        \<and> epd_type (tped_properties (ctp_events data ! b) ! q) = t
      \<longrightarrow> pe_id (ee_properties (res_events response ! a) ! p)
            = pe_id (ee_properties (res_events response ! b) ! q)
          \<and> pe_name (ee_properties (res_events response ! a) ! p) = n
          \<and> pe_name (ee_properties (res_events response ! b) ! q) = n
          \<and> map_option pr_id (resolved (snd (createTrackingPlan compiles now data db)) n t)
              = Some (pe_id (ee_properties (res_events response ! a) ! p)))"
proof (intro conjI impI)
  from createTrackingPlan_rows [of db compiles now data n t]
  show "property_rows (snd (createTrackingPlan compiles now data db)) n t \<le> property_rows db n t + 1"
    by (auto simp: rows_step_def)
next
  let ?db' = "snd (createTrackingPlan compiles now data db)"
  let ?ea = "ee_properties (res_events response ! a) ! p"
  let ?eb = "ee_properties (res_events response ! b) ! q"
  assume h: "fst (createTrackingPlan compiles now data db) = Returns (Success response)
        \<and> a < length (ctp_events data) \<and> b < length (ctp_events data)
        \<and> p < length (tped_properties (ctp_events data ! a))
        \<and> q < length (tped_properties (ctp_events data ! b))
        \<and> epd_name (tped_properties (ctp_events data ! a) ! p) = n
        \<and> epd_type (tped_properties (ctp_events data ! a) ! p) = t
        \<and> epd_name (tped_properties (ctp_events data ! b) ! q) = n
        \<and> epd_type (tped_properties (ctp_events data ! b) ! q) = t"
  then have t: "createTrackingPlan_try compiles now data db = (Inr response, ?db')"
    using createTrackingPlan_success by blast
  from response_entry [OF t, of a p] h
  have A: "entry_resolved ?db' ?ea" "entry_key ?ea = (n, t)"
    by (simp_all add: reference_key_def)
  from response_entry [OF t, of b q] h
  have B: "entry_resolved ?db' ?eb" "entry_key ?eb = (n, t)"
    by (simp_all add: reference_key_def)
  from entry_resolved_same_key [OF A(1) B(1)] A(2) B(2)
  show "pe_id ?ea = pe_id ?eb" by simp
  from A(2) show "pe_name ?ea = n" by (simp add: entry_key_def)
  from B(2) show "pe_name ?eb = n" by (simp add: entry_key_def)
  from A show "map_option pr_id (resolved ?db' n t) = Some (pe_id ?ea)"
    by (auto simp: entry_resolved_def entry_key_def split: option.splits)
qed

text \<open>
  The request of the README, whose shared property has no rule set, on the empty
  store: one property row, and both entries of the response carry its key 3.
\<close>

lemma createTrackingPlan_shared_property_without_rules:
  "fst (createTrackingPlan ex_compiles 5 ex_request_shop ex_store_none)
     = Returns (Success ex_response_shop)
   \<and> property_rows (snd (createTrackingPlan ex_compiles 5 ex_request_shop ex_store_none))
        ''product_id'' STRING = 1
   \<and> pe_id (ee_properties (res_events ex_response_shop ! 0) ! 0) = 3
   \<and> pe_id (ee_properties (res_events ex_response_shop ! 1) ! 0) = 3"
  by (simp add: ex_request_shop_def ex_product_required_def ex_store_none_def ex_compiles_def
        ex_response_shop_def ex_product_entry_def repository_defs create_defs rules_differ_def
        or_null_def property_rows_def Let_def)

text \<open>
  C2 fails on a request whose shared property carries a rule set. Both events of the
  request reference \<open>product_id\<close> of type string with the same description and the
  same rules, written \<open>{min: 1, max: 2}\<close> both times. The first reference finds no
  row and creates it; the column stores the rules as \<open>{max: 2, min: 1}\<close>. The second
  reference finds that row, the comparison of the serialised rule sets tells the row's
  rules from the request's, and the reference is not resolved to the row: the creation
  fails with the Conflict for different validation rules and returns no response. The
  store is left with the one property row (and with the plan and both events).
\<close>

theorem createTrackingPlan_shared_rules_conflict:
  "tped_properties (ctp_events ex_request_ruled ! 0) = [ex_product_ruled]
   \<and> tped_properties (ctp_events ex_request_ruled ! 1) = [ex_product_ruled]
   \<and> fst (createTrackingPlan ex_compiles 5 ex_request_ruled ex_store_none)
       = Returns (Failure ''CREATE_TRACKING_PLAN_ERROR''
           (''Property '' @ sq @ ''product_id'' @ sq @ '' of type '' @ sq @ ''string'' @ sq
              @ '' already exists with different validation rules''))
   \<and> properties (snd (createTrackingPlan ex_compiles 5 ex_request_ruled ex_store_none))
       = [\<lparr> pr_id = 3, pr_name = ''product_id'', pr_type = STRING,
             pr_description = ''Product identifier'',
             pr_validation_rules = Some ex_rules_max_min, pr_create_time = 5,
             pr_update_time = 5, pr_is_deleted = False, pr_deleted_at = None \<rparr>]
   \<and> findOrCreateProperty ex_compiles 5
         \<lparr> cp_name = ''product_id'', cp_type = STRING, cp_description = ''Product identifier'',
           cp_validation_rules = Some ex_rules_min_max, cp_create_time = None \<rparr>
         (snd (createTrackingPlan ex_compiles 5 ex_request_ruled ex_store_none))
       = (Inl (ConflictError
            (''Property '' @ sq @ ''product_id'' @ sq @ '' of type '' @ sq @ ''string'' @ sq
               @ '' already exists with different validation rules'')),
          snd (createTrackingPlan ex_compiles 5 ex_request_ruled ex_store_none))"
  by (simp add: ex_request_ruled_def ex_product_ruled_def ex_store_none_def ex_compiles_def
        ex_rules_min_max_def ex_rules_max_min_def repository_defs create_defs rules_differ_def
        or_null_def jsonb_object_def jsonb_key_less_def property_conflict_message_def
        stringify_member_def quote_string_def dq_def quote_char_def validatePropertyRules_def
        validate_regex_def present_and_def field_def Let_def)

end
